theory Spec2Isabelle
  imports Main
begin

section \<open>Values thrown by the program\<close>

text \<open>
  A JavaScript \<^verbatim>\<open>throw\<close> is modelled as the left summand of a result. The thrown values
  the sources distinguish are plain \<^verbatim>\<open>Error\<close> objects (with a message), the repository's
  \<^verbatim>\<open>StoreError\<close> (a message and an optional \<^verbatim>\<open>cause\<close>), the \<^verbatim>\<open>SyntaxError\<close> of
  \<^verbatim>\<open>JSON.parse\<close>, and values that are not \<^verbatim>\<open>Error\<close> instances at all.
\<close>

datatype js_error =
    Error string
  | StoreError string "js_error option"
  | SyntaxError string
  | NonError string

text \<open>\<^verbatim>\<open>a ?? b\<close>: the left operand unless it is \<^verbatim>\<open>undefined\<close> or \<^verbatim>\<open>null\<close>.\<close>

definition nullish :: "'a option \<Rightarrow> 'a \<Rightarrow> 'a" where
  "nullish a b = (case a of None \<Rightarrow> b | Some v \<Rightarrow> v)"

section \<open>The relation repository (relation.repository.ts)\<close>

text \<open>
  \<^verbatim>\<open>RelationRecord\<close>: the seven columns every query of the repository selects. A nullable
  column (\<^verbatim>\<open>string | null\<close>) is a \<open>string option\<close>.
\<close>

record RelationRecord =
  project :: string
  rtype :: string
  srcFilePath :: string
  srcSymbolName :: "string option"
  dstFilePath :: string
  dstSymbolName :: "string option"
  metaJson :: "string option"

text \<open>
  \<^verbatim>\<open>Partial<RelationRecord>\<close>: every field may be absent (\<open>None\<close>). For a nullable field
  \<open>Some None\<close> is an explicit \<^verbatim>\<open>null\<close>.
\<close>

record PartialRelationRecord =
  p_project :: "string option"
  p_type :: "string option"
  p_srcFilePath :: "string option"
  p_srcSymbolName :: "string option option"
  p_dstFilePath :: "string option"
  p_dstSymbolName :: "string option option"
  p_metaJson :: "string option option"

text \<open>A fully specified row, seen as a \<^verbatim>\<open>Partial<RelationRecord>\<close>.\<close>

definition full :: "RelationRecord \<Rightarrow> PartialRelationRecord" where
  "full r = \<lparr> p_project = Some (project r), p_type = Some (rtype r),
     p_srcFilePath = Some (srcFilePath r), p_srcSymbolName = Some (srcSymbolName r),
     p_dstFilePath = Some (dstFilePath r), p_dstSymbolName = Some (dstSymbolName r),
     p_metaJson = Some (metaJson r) \<rparr>"

text \<open>\<^verbatim>\<open>FileRecord\<close> of file.repository.ts.\<close>

record FileRecord =
  f_project :: string
  f_filePath :: string
  f_mtimeMs :: int
  f_size :: int
  f_contentHash :: string
  f_updatedAt :: string

text \<open>
  The part of the database the relation repository touches: the \<^verbatim>\<open>files\<close> table and the
  \<^verbatim>\<open>relations\<close> table, rows in row-id order. The auto-generated row id is not selected by
  any query of the repository and is left out.
\<close>

record db =
  files :: "FileRecord list"
  relations :: "RelationRecord list"

text \<open>
  \<^verbatim>\<open>FileRepository.deleteFile\<close> (file.repository.ts). The relations whose source is the
  deleted file go with it (\<^verbatim>\<open>ON DELETE CASCADE\<close>; modelled from the spec, as the foreign key
  below).
\<close>

definition deleteFile :: "string \<Rightarrow> string \<Rightarrow> db \<Rightarrow> db" where
  "deleteFile proj path d =
     d\<lparr>files := filter (\<lambda>f. \<not> (f_project f = proj \<and> f_filePath f = path)) (files d),
       relations := filter (\<lambda>r. \<not> (project r = proj \<and> srcFilePath r = path)) (relations d)\<rparr>"

text \<open>The relation types the specification enumerates.\<close>

definition relation_types :: "string set" where
  "relation_types = {''imports'', ''calls'', ''extends'', ''implements''}"

text \<open>
  Modelled from the spec: the schema (schema.ts) is not among the sources. The specification
  gives \<^verbatim>\<open>relations(project, srcFilePath)\<close> a foreign key to \<^verbatim>\<open>files(project, filePath)\<close>, and
  \<^verbatim>\<open>open()\<close> turns enforcement on (\<^verbatim>\<open>PRAGMA foreign_keys = ON\<close>): an insert whose source file has
  no row in \<^verbatim>\<open>files\<close> throws.
\<close>

definition fk_ok :: "db \<Rightarrow> RelationRecord \<Rightarrow> bool" where
  "fk_ok d r = (\<exists>f \<in> set (files d). f_project f = project r \<and> f_filePath f = srcFilePath r)"

definition insert_relation :: "RelationRecord \<Rightarrow> db \<Rightarrow> (js_error + unit) \<times> db" where
  "insert_relation r d =
     (if fk_ok d r then (Inr (), d\<lparr>relations := relations d @ [r]\<rparr>)
      else (Inl (Error ''FOREIGN KEY constraint failed''), d))"

text \<open>The object handed to \<^verbatim>\<open>.values(...)\<close> for one element of \<^verbatim>\<open>rels\<close>.\<close>

definition relation_values :: "string \<Rightarrow> string \<Rightarrow> PartialRelationRecord \<Rightarrow> RelationRecord" where
  "relation_values proj src rel =
     \<lparr> project = proj,
       rtype = nullish (p_type rel) ''unknown'',
       srcFilePath = nullish (p_srcFilePath rel) src,
       srcSymbolName = nullish (p_srcSymbolName rel) None,
       dstFilePath = nullish (p_dstFilePath rel) '''',
       dstSymbolName = nullish (p_dstSymbolName rel) None,
       metaJson = nullish (p_metaJson rel) None \<rparr>"

text \<open>The \<^verbatim>\<open>for (const rel of rels)\<close> loop: the first insert that throws ends the call.\<close>

fun insert_rels :: "string \<Rightarrow> string \<Rightarrow> PartialRelationRecord list \<Rightarrow> db \<Rightarrow> (js_error + unit) \<times> db" where
  "insert_rels proj src [] d = (Inr (), d)"
| "insert_rels proj src (rel # rels) d =
     (case insert_relation (relation_values proj src rel) d of
        (Inl e, d') \<Rightarrow> (Inl e, d')
      | (Inr u, d') \<Rightarrow> insert_rels proj src rels d')"

definition deleteFileRelations :: "string \<Rightarrow> string \<Rightarrow> db \<Rightarrow> db" where
  "deleteFileRelations proj src d =
     d\<lparr>relations := filter (\<lambda>r. \<not> (project r = proj \<and> srcFilePath r = src)) (relations d)\<rparr>"

definition replaceFileRelations ::
  "string \<Rightarrow> string \<Rightarrow> PartialRelationRecord list \<Rightarrow> db \<Rightarrow> (js_error + unit) \<times> db" where
  "replaceFileRelations proj src rels d =
     (let d1 = deleteFileRelations proj src d
      in if length rels = 0 then (Inr (), d1) else insert_rels proj src rels d1)"

text \<open>
  \<^verbatim>\<open>getOutgoing(project, srcFilePath, srcSymbolName?)\<close>: the optional third argument is
  \<open>None\<close> when it is \<^verbatim>\<open>undefined\<close>. SQL equality with a text value is never true of
  a \<^verbatim>\<open>NULL\<close> column.
\<close>

definition getOutgoing :: "string \<Rightarrow> string \<Rightarrow> string option \<Rightarrow> db \<Rightarrow> RelationRecord list" where
  "getOutgoing proj src srcSym d =
     (case srcSym of
        Some s \<Rightarrow> filter (\<lambda>r. project r = proj \<and> srcFilePath r = src \<and> srcSymbolName r = Some s)
                    (relations d)
      | None \<Rightarrow> filter (\<lambda>r. project r = proj \<and> srcFilePath r = src) (relations d))"

definition getIncoming :: "string \<Rightarrow> string \<Rightarrow> db \<Rightarrow> RelationRecord list" where
  "getIncoming proj dst d = filter (\<lambda>r. project r = proj \<and> dstFilePath r = dst) (relations d)"

text \<open>
  \<^verbatim>\<open>retargetRelations\<close>: an \<^verbatim>\<open>UPDATE\<close> of the destination of every row that points at
  \<^verbatim>\<open>(oldFile, oldSymbol)\<close>; \<^verbatim>\<open>oldSymbol = null\<close> selects the rows whose destination symbol
  \<^verbatim>\<open>IS NULL\<close>.
\<close>

definition retarget_condition :: "string \<Rightarrow> string \<Rightarrow> string option \<Rightarrow> RelationRecord \<Rightarrow> bool" where
  "retarget_condition proj oldFile oldSymbol r =
     (case oldSymbol of
        None \<Rightarrow> project r = proj \<and> dstFilePath r = oldFile \<and> dstSymbolName r = None
      | Some s \<Rightarrow> project r = proj \<and> dstFilePath r = oldFile \<and> dstSymbolName r = Some s)"

definition retargetRelations ::
  "string \<Rightarrow> string \<Rightarrow> string option \<Rightarrow> string \<Rightarrow> string option \<Rightarrow> db \<Rightarrow> db" where
  "retargetRelations proj oldFile oldSymbol newFile newSymbol d =
     d\<lparr>relations := map (\<lambda>r. if retarget_condition proj oldFile oldSymbol r
                              then r\<lparr>dstFilePath := newFile, dstSymbolName := newSymbol\<rparr>
                              else r) (relations d)\<rparr>"

section \<open>The store connection (connection.ts)\<close>

subsection \<open>The database engine behind the connection\<close>

text \<open>
  The SQLite engine is not part of the repository. What \<^verbatim>\<open>transaction\<close> relies on is modelled
  as SQLite documents it: the connection sees the current \<open>contents\<close>; every open \<^verbatim>\<open>BEGIN\<close>
  (tag \<open>None\<close>) or \<^verbatim>\<open>SAVEPOINT name\<close> (tag \<open>Some name\<close>) is a frame holding the contents at the
  moment it was opened, innermost frame first. No frame means no transaction is active, and
  the contents are committed.
\<close>

datatype stmt = Begin | Commit | Rollback | Savepoint string | Release string | RollbackTo string

record 'd sqlite =
  contents :: 'd
  frames :: "(string option \<times> 'd) list"

text \<open>The innermost savepoint of a given name: its snapshot and the frames outside it.\<close>

fun find_savepoint :: "string \<Rightarrow> (string option \<times> 'd) list \<Rightarrow> ('d \<times> (string option \<times> 'd) list) option" where
  "find_savepoint n [] = None"
| "find_savepoint n ((tag, snap) # outer) =
     (if tag = Some n then Some (snap, outer) else find_savepoint n outer)"

fun exec :: "stmt \<Rightarrow> 'd sqlite \<Rightarrow> js_error + 'd sqlite" where
  "exec Begin e =
     (if frames e \<noteq> [] then Inl (Error ''cannot start a transaction within a transaction'')
      else Inr (e\<lparr>frames := [(None, contents e)]\<rparr>))"
| "exec Commit e =
     (if frames e = [] then Inl (Error ''cannot commit - no transaction is active'')
      else Inr (e\<lparr>frames := []\<rparr>))"
| "exec Rollback e =
     (case rev (frames e) of
        [] \<Rightarrow> Inl (Error ''cannot rollback - no transaction is active'')
      | (tag, snap) # inner \<Rightarrow> Inr (e\<lparr>contents := snap, frames := []\<rparr>))"
| "exec (Savepoint n) e = Inr (e\<lparr>frames := (Some n, contents e) # frames e\<rparr>)"
| "exec (Release n) e =
     (case find_savepoint n (frames e) of
        None \<Rightarrow> Inl (Error (''no such savepoint: '' @ n))
      | Some (snap, outer) \<Rightarrow> Inr (e\<lparr>frames := outer\<rparr>))"
| "exec (RollbackTo n) e =
     (case find_savepoint n (frames e) of
        None \<Rightarrow> Inl (Error (''no such savepoint: '' @ n))
      | Some (snap, outer) \<Rightarrow> Inr (e\<lparr>contents := snap, frames := (Some n, snap) # outer\<rparr>))"

subsection \<open>The connection object\<close>

text \<open>
  \<^verbatim>\<open>DbConnection\<close>: \<open>client\<close> is \<open>None\<close> while the connection is closed; \<open>drizzle\<close> says
  whether the \<^verbatim>\<open>_drizzle\<close> wrapper is set; \<open>txDepth\<close> is the nesting counter.
\<close>

record 'd DbConnection =
  client :: "'d sqlite option"
  drizzle :: bool
  dbPath :: string
  txDepth :: int

type_synonym ('d, 'a) dbfun = "'d DbConnection \<Rightarrow> (js_error + 'a) \<times> 'd DbConnection"

text \<open>\<^verbatim>\<open>db.run(sql)\<close> on the client; a statement the engine rejects throws and changes nothing.\<close>

definition run :: "stmt \<Rightarrow> ('d, unit) dbfun" where
  "run st c =
     (case client c of
        None \<Rightarrow> (Inl (Error ''Database has closed''), c)
      | Some e \<Rightarrow>
          (case exec st e of
             Inl err \<Rightarrow> (Inl err, c)
           | Inr e' \<Rightarrow> (Inr (), c\<lparr>client := Some e'\<rparr>)))"

definition inTransaction :: "'d DbConnection \<Rightarrow> bool" where
  "inTransaction c = (case client c of None \<Rightarrow> False | Some e \<Rightarrow> frames e \<noteq> [])"

text \<open>
  \<^verbatim>\<open>db.transaction(fn)()\<close> of bun:sqlite, which the source uses for the outermost level
  (``automatic BEGIN / COMMIT / ROLLBACK handling''). The runtime's wrapper begins (or, when
  the engine is already inside a transaction, opens its own savepoint), runs \<^verbatim>\<open>fn\<close>, commits
  (releases); when anything in that sequence throws and a transaction is still active it rolls
  back (rolls back to the savepoint and releases it) and throws the same value again.
\<close>

definition bun_savepoint :: string where
  "bun_savepoint = ''_bs3.''"

definition bun_try :: "stmt \<Rightarrow> stmt \<Rightarrow> ('d, 'a) dbfun \<Rightarrow> ('d, 'a) dbfun" where
  "bun_try before after fn c =
     (case run before c of
        (Inl ex, c1) \<Rightarrow> (Inl ex, c1)
      | (Inr u, c1) \<Rightarrow>
          (case fn c1 of
             (Inl ex, c2) \<Rightarrow> (Inl ex, c2)
           | (Inr result, c2) \<Rightarrow>
               (case run after c2 of
                  (Inl ex, c3) \<Rightarrow> (Inl ex, c3)
                | (Inr u, c3) \<Rightarrow> (Inr result, c3))))"

definition bun_transaction :: "('d, 'a) dbfun \<Rightarrow> ('d, 'a) dbfun" where
  "bun_transaction fn c =
     (let nested = inTransaction c;
          before = (if nested then Savepoint bun_savepoint else Begin);
          after = (if nested then Release bun_savepoint else Commit);
          undo = (if nested then RollbackTo bun_savepoint else Rollback)
      in case bun_try before after fn c of
           (Inr result, c') \<Rightarrow> (Inr result, c')
         | (Inl ex, c') \<Rightarrow>
             if inTransaction c' then
               (case run undo c' of
                  (Inl ex2, c'') \<Rightarrow> (Inl ex2, c'')
                | (Inr u, c'') \<Rightarrow>
                    if undo \<noteq> Rollback then
                      (case run after c'' of
                         (Inl ex3, c3) \<Rightarrow> (Inl ex3, c3)
                       | (Inr u, c3) \<Rightarrow> (Inl ex, c3))
                    else (Inl ex, c''))
             else (Inl ex, c'))"

text \<open>Decimal rendering of a number inside a template string.\<close>

fun show_nat :: "nat \<Rightarrow> string" where
  "show_nat n =
     (if n < 10 then [''0123456789'' ! n]
      else show_nat (n div 10) @ [''0123456789'' ! (n mod 10)])"

declare show_nat.simps [simp del]

definition show_int :: "int \<Rightarrow> string" where
  "show_int i = (if i < 0 then ''-'' @ show_nat (nat (- i)) else show_nat (nat i))"

text \<open>
  The \<^verbatim>\<open>catch\<close> block of the nested level: roll back to the savepoint, release it, throw the
  caught value again. A statement that throws inside the block replaces the caught value.
\<close>

definition savepoint_catch :: "string \<Rightarrow> js_error \<Rightarrow> ('d, 'a) dbfun" where
  "savepoint_catch sp err c =
     (case run (RollbackTo sp) c of
        (Inl e1, c1) \<Rightarrow> (Inl e1, c1)
      | (Inr u, c1) \<Rightarrow>
          (case run (Release sp) c1 of
             (Inl e2, c2) \<Rightarrow> (Inl e2, c2)
           | (Inr u, c2) \<Rightarrow> (Inl err, c2)))"

text \<open>
  \<^verbatim>\<open>transaction(fn)\<close>. \<^verbatim>\<open>fn\<close> is a closure over the connection, so in the model it takes the
  connection and returns it with its result or the value it threw. The decrement of
  \<^verbatim>\<open>txDepth\<close> sits in \<^verbatim>\<open>finally\<close> blocks: it runs on every path that entered the \<^verbatim>\<open>try\<close>.
  The \<^verbatim>\<open>SAVEPOINT\<close> statement of the nested level is issued before the \<^verbatim>\<open>try\<close>.
\<close>

definition transaction :: "('d, 'a) dbfun \<Rightarrow> ('d, 'a) dbfun" where
  "transaction fn c =
     (case client c of
        None \<Rightarrow> (Inl (StoreError ''Database is not open. Call open() first.'' None), c)
      | Some db \<Rightarrow>
          if txDepth c = 0 then
            (case bun_transaction fn (c\<lparr>txDepth := txDepth c + 1\<rparr>) of
               (r, c') \<Rightarrow> (r, c'\<lparr>txDepth := txDepth c' - 1\<rparr>))
          else
            (let sp = ''sp_'' @ show_int (txDepth c)
             in case run (Savepoint sp) (c\<lparr>txDepth := txDepth c + 1\<rparr>) of
                  (Inl e0, c1) \<Rightarrow> (Inl e0, c1)
                | (Inr u, c1) \<Rightarrow>
                    (case (case fn c1 of
                             (Inl err, c2) \<Rightarrow> savepoint_catch sp err c2
                           | (Inr result, c2) \<Rightarrow>
                               (case run (Release sp) c2 of
                                  (Inl err, c3) \<Rightarrow> savepoint_catch sp err c3
                                | (Inr u, c3) \<Rightarrow> (Inr result, c3))) of
                       (r, c') \<Rightarrow> (r, c'\<lparr>txDepth := txDepth c' - 1\<rparr>))))"

subsection \<open>Opening the store\<close>

text \<open>JavaScript string helpers used by \<^verbatim>\<open>_isCorruptionError\<close> and by the watcher intake.\<close>

definition toLowerChar :: "char \<Rightarrow> char" where
  "toLowerChar ch =
     (case map_of (zip ''ABCDEFGHIJKLMNOPQRSTUVWXYZ'' ''abcdefghijklmnopqrstuvwxyz'') ch of
        None \<Rightarrow> ch
      | Some l \<Rightarrow> l)"

definition toLowerCase :: "string \<Rightarrow> string" where
  "toLowerCase s = map toLowerChar s"

definition startsWith :: "string \<Rightarrow> string \<Rightarrow> bool" where
  "startsWith s p = (take (length p) s = p)"

fun str_includes :: "string \<Rightarrow> string \<Rightarrow> bool" where
  "str_includes [] sub = (sub = [])"
| "str_includes (ch # s) sub = (startsWith (ch # s) sub \<or> str_includes s sub)"

definition endsWith :: "string \<Rightarrow> string \<Rightarrow> bool" where
  "endsWith s suffix =
     (length suffix \<le> length s \<and> drop (length s - length suffix) s = suffix)"

text \<open>
  \<^verbatim>\<open>_isCorruptionError\<close>: a thrown value that is not an \<^verbatim>\<open>Error\<close> is never a corruption
  error; otherwise the lower-cased message decides.
\<close>

fun error_message :: "js_error \<Rightarrow> string option" where
  "error_message (Error m) = Some m"
| "error_message (StoreError m cause) = Some m"
| "error_message (SyntaxError m) = Some m"
| "error_message (NonError v) = None"

definition isCorruptionError :: "js_error \<Rightarrow> bool" where
  "isCorruptionError err =
     (case error_message err of
        None \<Rightarrow> False
      | Some m \<Rightarrow>
          (let msg = toLowerCase m
           in str_includes msg ''malformed'' \<or> str_includes msg ''corrupt'' \<or> str_includes msg ''not a database''))"

fun isStoreError :: "js_error \<Rightarrow> bool" where
  "isStoreError (StoreError m cause) = True"
| "isStoreError other = False"

text \<open>
  What one pass through the \<^verbatim>\<open>try\<close> block of \<^verbatim>\<open>open()\<close> does is decided by the file system and
  the database engine. The possible courses, by the first statement that throws:
  \<^verbatim>\<open>mkdirSync\<close>; \<^verbatim>\<open>new Database\<close>; one of the pragmas (the client is assigned by then);
  \<^verbatim>\<open>migrate\<close> or the full-text setup (client and \<^verbatim>\<open>_drizzle\<close> are assigned); or none.
\<close>

datatype 'd attempt =
    MkdirThrows js_error
  | DatabaseThrows js_error
  | PragmaThrows js_error "'d sqlite"
  | MigrateThrows js_error "'d sqlite"
  | Opens "'d sqlite"

fun try_open :: "'d attempt \<Rightarrow> ('d, unit) dbfun" where
  "try_open (MkdirThrows err) c = (Inl err, c)"
| "try_open (DatabaseThrows err) c = (Inl err, c)"
| "try_open (PragmaThrows err e) c = (Inl err, c\<lparr>client := Some e\<rparr>)"
| "try_open (MigrateThrows err e) c = (Inl err, c\<lparr>client := Some e, drizzle := True\<rparr>)"
| "try_open (Opens e) c = (Inr (), c\<lparr>client := Some e, drizzle := True\<rparr>)"

definition closeClient :: "'d DbConnection \<Rightarrow> 'd DbConnection" where
  "closeClient c = (case client c of None \<Rightarrow> c | Some e \<Rightarrow> c\<lparr>client := None\<rparr>)"

text \<open>
  The world \<^verbatim>\<open>open()\<close> acts on: the connection object, the set of paths that exist on disk,
  and a count of the passes through the \<^verbatim>\<open>try\<close> block made so far. The environment \<open>env\<close>
  says, for the \<open>n\<close>-th pass and the disk it finds, how the pass goes and what it leaves on
  disk.
\<close>

record 'd world =
  conn :: "'d DbConnection"
  disk :: "string set"
  attempts :: nat

type_synonym 'd env = "nat \<Rightarrow> string set \<Rightarrow> 'd attempt \<times> string set"

text \<open>
  \<^verbatim>\<open>open()\<close>. The recovery branch calls \<^verbatim>\<open>this.open()\<close> again, so the function is recursive
  and need not return: \<open>None\<close> is the call that never returns. The depth of the recursion is
  not bounded here: the runtime's call-stack limit, which ends such a run with a
  \<^verbatim>\<open>RangeError\<close> after some thousands of passes, is not part of the model.
\<close>

partial_function (option) open_db :: "'d env \<Rightarrow> 'd world \<Rightarrow> ((js_error + unit) \<times> 'd world) option" where
  "open_db env w =
     (case env (attempts w) (disk w) of
        (outcome, disk1) \<Rightarrow>
          (case try_open outcome (conn w) of
             (Inr u, c1) \<Rightarrow> Some (Inr (), w\<lparr>conn := c1, disk := disk1, attempts := attempts w + 1\<rparr>)
           | (Inl err, c1) \<Rightarrow>
               if isCorruptionError err \<and> dbPath c1 \<in> disk1 then
                 Option.bind
                   (open_db env
                      (w\<lparr>conn := closeClient c1,
                         disk := disk1 - {dbPath c1} - {dbPath c1 @ ''-wal''} - {dbPath c1 @ ''-shm''},
                         attempts := attempts w + 1\<rparr>))
                   (\<lambda>(r, w').
                      case r of
                        Inr u \<Rightarrow> Some (Inr (), w')
                      | Inl retryErr \<Rightarrow>
                          Some (Inl (StoreError (''Failed to recover database at '' @ dbPath c1)
                                       (Some retryErr)), w'))
               else if isStoreError err then
                 Some (Inl err, w\<lparr>conn := c1, disk := disk1, attempts := attempts w + 1\<rparr>)
               else
                 Some (Inl (StoreError (''Failed to open database at '' @ dbPath c1) (Some err)),
                       w\<lparr>conn := c1, disk := disk1, attempts := attempts w + 1\<rparr>)))"

declare open_db.simps [code]

section \<open>Symbol search (symbol-search.ts)\<close>

subsection \<open>\<^verbatim>\<open>JSON.parse\<close>\<close>

text \<open>
  \<^verbatim>\<open>JSON.parse\<close> belongs to the language, not to the repository. It is modelled by a parser
  of the JSON grammar: white space, objects, arrays, strings with their escapes, numbers and
  the three literals. Strings and numbers are kept as their lexemes; an object keeps its
  members in order. Text that is not JSON makes \<^verbatim>\<open>JSON.parse\<close> throw a \<^verbatim>\<open>SyntaxError\<close>.
\<close>

datatype json =
    JNull
  | JBool bool
  | JNumber string
  | JString string
  | JArray "json list"
  | JObject "(string \<times> json) list"

definition is_json_ws :: "char \<Rightarrow> bool" where
  "is_json_ws ch = (ch = CHR 0x20 \<or> ch = CHR 0x09 \<or> ch = CHR 0x0A \<or> ch = CHR 0x0D)"

definition skip_ws :: "string \<Rightarrow> string" where
  "skip_ws s = dropWhile is_json_ws s"

definition is_digit :: "char \<Rightarrow> bool" where
  "is_digit ch = (ch \<in> set ''0123456789'')"

definition is_hex :: "char \<Rightarrow> bool" where
  "is_hex ch = (ch \<in> set ''0123456789abcdefABCDEF'')"

text \<open>The rest of a string after its opening quote: the lexeme and what follows the closing quote.\<close>

fun json_string_body :: "string \<Rightarrow> string \<Rightarrow> (string \<times> string) option" where
  "json_string_body acc [] = None"
| "json_string_body acc [ch] = (if ch = CHR 0x22 then Some (rev acc, []) else None)"
| "json_string_body acc (ch # e # s) =
     (if ch = CHR 0x22 then Some (rev acc, e # s)
      else if ch = CHR 0x5C then
        (if e \<in> set [CHR 0x22, CHR 0x5C, CHR ''/'', CHR ''b'', CHR ''f'', CHR ''n'', CHR ''r'', CHR ''t'']
         then json_string_body (e # ch # acc) s
         else if e = CHR ''u'' \<and> 4 \<le> length s \<and> list_all is_hex (take 4 s)
         then json_string_body (rev (take 4 s) @ e # ch # acc) (drop 4 s)
         else None)
      else if (of_char ch :: nat) < 32 then None
      else json_string_body (ch # acc) (e # s))"

text \<open>A number: optional minus, integer part without a leading zero, fraction, exponent.\<close>

definition json_frac :: "string \<Rightarrow> (string \<times> string) option" where
  "json_frac s =
     (case s of
        [] \<Rightarrow> Some ([], s)
      | ch # t \<Rightarrow>
          if ch = CHR ''.'' then
            (if takeWhile is_digit t = [] then None
             else Some (ch # takeWhile is_digit t, dropWhile is_digit t))
          else Some ([], s))"

definition json_exp :: "string \<Rightarrow> (string \<times> string) option" where
  "json_exp s =
     (case s of
        [] \<Rightarrow> Some ([], s)
      | ch # t \<Rightarrow>
          if ch = CHR ''e'' \<or> ch = CHR ''E'' then
            (let sgn = (case t of [] \<Rightarrow> [] | g # u \<Rightarrow> if g = CHR ''+'' \<or> g = CHR ''-'' then [g] else []);
                 u = drop (length sgn) t
             in if takeWhile is_digit u = [] then None
                else Some (ch # sgn @ takeWhile is_digit u, dropWhile is_digit u))
          else Some ([], s))"

definition json_number :: "string \<Rightarrow> (string \<times> string) option" where
  "json_number s =
     (let sgn = (case s of [] \<Rightarrow> [] | ch # t \<Rightarrow> if ch = CHR ''-'' then [ch] else []);
          s1 = drop (length sgn) s;
          ip = takeWhile is_digit s1;
          s2 = dropWhile is_digit s1
      in if ip = [] \<or> (1 < length ip \<and> take 1 ip = ''0'') then None
         else (case json_frac s2 of
                 None \<Rightarrow> None
               | Some (fr, s3) \<Rightarrow>
                   (case json_exp s3 of
                      None \<Rightarrow> None
                    | Some (ex, s4) \<Rightarrow> Some (sgn @ ip @ fr @ ex, s4))))"

text \<open>
  Values, array elements and object members. The first argument bounds the number of
  recursive calls; \<open>JSON_parse\<close> starts it above twice the length of the text.
\<close>

fun json_value :: "nat \<Rightarrow> string \<Rightarrow> (json \<times> string) option"
  and json_elements :: "nat \<Rightarrow> json list \<Rightarrow> string \<Rightarrow> (json \<times> string) option"
  and json_members :: "nat \<Rightarrow> (string \<times> json) list \<Rightarrow> string \<Rightarrow> (json \<times> string) option" where
  "json_value 0 s = None"
| "json_value (Suc k) [] = None"
| "json_value (Suc k) (ch # s) =
     (if ch = CHR ''{'' then
        (if take 1 (skip_ws s) = ''}'' then Some (JObject [], drop 1 (skip_ws s))
         else json_members k [] (skip_ws s))
      else if ch = CHR ''['' then
        (if take 1 (skip_ws s) = '']'' then Some (JArray [], drop 1 (skip_ws s))
         else json_elements k [] (skip_ws s))
      else if ch = CHR 0x22 then
        (case json_string_body [] s of
           None \<Rightarrow> None
         | Some (str, rest) \<Rightarrow> Some (JString str, rest))
      else if startsWith (ch # s) ''true'' then Some (JBool True, drop 4 (ch # s))
      else if startsWith (ch # s) ''false'' then Some (JBool False, drop 5 (ch # s))
      else if startsWith (ch # s) ''null'' then Some (JNull, drop 4 (ch # s))
      else (case json_number (ch # s) of
              None \<Rightarrow> None
            | Some (num, rest) \<Rightarrow> Some (JNumber num, rest)))"
| "json_elements 0 acc s = None"
| "json_elements (Suc k) acc s =
     (case json_value k s of
        None \<Rightarrow> None
      | Some (v, rest) \<Rightarrow>
          (if take 1 (skip_ws rest) = '','' then json_elements k (v # acc) (skip_ws (drop 1 (skip_ws rest)))
           else if take 1 (skip_ws rest) = '']'' then Some (JArray (rev (v # acc)), drop 1 (skip_ws rest))
           else None))"
| "json_members 0 acc s = None"
| "json_members (Suc k) acc s =
     (if take 1 s \<noteq> [CHR 0x22] then None
      else (case json_string_body [] (drop 1 s) of
              None \<Rightarrow> None
            | Some (key, r1) \<Rightarrow>
                (if take 1 (skip_ws r1) \<noteq> '':'' then None
                 else (case json_value k (skip_ws (drop 1 (skip_ws r1))) of
                         None \<Rightarrow> None
                       | Some (v, r2) \<Rightarrow>
                           (if take 1 (skip_ws r2) = '','' then
                              json_members k ((key, v) # acc) (skip_ws (drop 1 (skip_ws r2)))
                            else if take 1 (skip_ws r2) = ''}'' then
                              Some (JObject (rev ((key, v) # acc)), drop 1 (skip_ws r2))
                            else None)))))"

definition JSON_parse :: "string \<Rightarrow> js_error + json" where
  "JSON_parse s =
     (case json_value (2 * length s + 2) (skip_ws s) of
        None \<Rightarrow> Inl (SyntaxError ''JSON Parse error'')
      | Some (v, rest) \<Rightarrow>
          if skip_ws rest = [] then Inr v else Inl (SyntaxError ''JSON Parse error''))"

subsection \<open>The search function\<close>

text \<open>A row of the \<^verbatim>\<open>symbols\<close> table with its id (\<^verbatim>\<open>SymbolRecord & { id: number }\<close>).\<close>

record SymbolRecord =
  s_id :: int
  s_project :: string
  s_filePath :: string
  s_kind :: string
  s_name :: string
  s_startLine :: int
  s_startColumn :: int
  s_endLine :: int
  s_endColumn :: int
  s_isExported :: int
  s_signature :: "string option"
  s_fingerprint :: "string option"
  s_detailJson :: "string option"
  s_contentHash :: string
  s_indexedAt :: string

record position =
  line :: int
  column :: int

record span =
  span_start :: position
  span_end :: position

record SymbolSearchResult =
  r_id :: int
  r_filePath :: string
  r_kind :: string
  r_name :: string
  r_span :: span
  r_isExported :: bool
  r_signature :: "string option"
  r_fingerprint :: "string option"
  r_detail :: json

record SymbolSearchQuery =
  q_text :: "string option"
  q_kind :: "string option"
  q_filePath :: "string option"
  q_isExported :: "bool option"
  q_project :: "string option"
  q_limit :: "int option"

text \<open>The argument of \<^verbatim>\<open>searchByQuery\<close>.\<close>

record search_opts =
  o_ftsQuery :: "string option"
  o_kind :: "string option"
  o_filePath :: "string option"
  o_isExported :: "bool option"
  o_project :: "string option"
  o_limit :: int

text \<open>
  White space of \<^verbatim>\<open>trim\<close> and of the pattern \<^verbatim>\<open>\s\<close>. Strings are byte strings here, so only
  the ASCII white space is covered.
\<close>

definition is_space :: "char \<Rightarrow> bool" where
  "is_space ch = (ch \<in> set [CHR 0x20, CHR 0x09, CHR 0x0A, CHR 0x0B, CHR 0x0C, CHR 0x0D])"

definition trim :: "string \<Rightarrow> string" where
  "trim s = rev (dropWhile is_space (rev (dropWhile is_space s)))"

text \<open>\<^verbatim>\<open>split(/\s+/)\<close>: \<open>cur\<close> is the token being read, reversed.\<close>

function split_ws :: "string \<Rightarrow> string \<Rightarrow> string list" where
  "split_ws cur [] = [rev cur]"
| "split_ws cur (ch # s) =
     (if is_space ch then rev cur # split_ws [] (dropWhile is_space s)
      else split_ws (ch # cur) s)"
  by pat_completeness auto
termination
  by (relation "measure (\<lambda>(cur, s). length s)")
     (auto simp: length_dropWhile_le less_Suc_eq_le)

text \<open>\<^verbatim>\<open>t.replace(/["*^()\-]/g, '\\$&')\<close>: a backslash before every listed character.\<close>

definition escape_fts :: "string \<Rightarrow> string" where
  "escape_fts t =
     concat (map (\<lambda>ch. if ch \<in> set [CHR 0x22, CHR ''*'', CHR ''^'', CHR ''('', CHR '')'', CHR ''-'']
                        then [CHR 0x5C, ch] else [ch]) t)"

fun join :: "string \<Rightarrow> string list \<Rightarrow> string" where
  "join sep [] = []"
| "join sep [t] = t"
| "join sep (t # u # ts) = t @ sep @ join sep (u # ts)"

definition build_fts :: "string \<Rightarrow> string" where
  "build_fts text = join '' '' (map (\<lambda>t. escape_fts t @ ''*'') (split_ws [] (trim text)))"

definition search_options :: "string option \<Rightarrow> SymbolSearchQuery \<Rightarrow> search_opts" where
  "search_options proj query =
     (let effectiveProject = (case q_project query of None \<Rightarrow> proj | Some p \<Rightarrow> Some p);
          limit = nullish (q_limit query) 100;
          opts = \<lparr> o_ftsQuery = None, o_kind = q_kind query, o_filePath = q_filePath query,
                   o_isExported = q_isExported query, o_project = effectiveProject,
                   o_limit = limit \<rparr>
      in case q_text query of
           None \<Rightarrow> opts
         | Some text \<Rightarrow> if text = [] then opts else opts\<lparr>o_ftsQuery := Some (build_fts text)\<rparr>)"

text \<open>\<^verbatim>\<open>r.detailJson ? JSON.parse(r.detailJson) : {}\<close>: null and the empty string are falsy.\<close>

definition parse_detail :: "string option \<Rightarrow> js_error + json" where
  "parse_detail detailJson =
     (case detailJson of
        None \<Rightarrow> Inr (JObject [])
      | Some s \<Rightarrow> if s = [] then Inr (JObject []) else JSON_parse s)"

definition reshape :: "SymbolRecord \<Rightarrow> js_error + SymbolSearchResult" where
  "reshape r =
     (case parse_detail (s_detailJson r) of
        Inl err \<Rightarrow> Inl err
      | Inr d \<Rightarrow>
          Inr \<lparr> r_id = s_id r, r_filePath = s_filePath r, r_kind = s_kind r, r_name = s_name r,
                r_span = \<lparr> span_start = \<lparr> line = s_startLine r, column = s_startColumn r \<rparr>,
                          span_end = \<lparr> line = s_endLine r, column = s_endColumn r \<rparr> \<rparr>,
                r_isExported = (s_isExported r = 1), r_signature = s_signature r,
                r_fingerprint = s_fingerprint r, r_detail = d \<rparr>)"

text \<open>\<^verbatim>\<open>records.map(...)\<close>: the callback that throws ends the call.\<close>

fun reshape_all :: "SymbolRecord list \<Rightarrow> js_error + SymbolSearchResult list" where
  "reshape_all [] = Inr []"
| "reshape_all (r # rs) =
     (case reshape r of
        Inl err \<Rightarrow> Inl err
      | Inr x \<Rightarrow> (case reshape_all rs of Inl err \<Rightarrow> Inl err | Inr xs \<Rightarrow> Inr (x # xs)))"

text \<open>
  \<^verbatim>\<open>symbolSearch\<close>. The repository is an injected interface with one method,
  \<^verbatim>\<open>searchByQuery\<close>, which may itself throw.
\<close>

definition symbolSearch ::
  "(search_opts \<Rightarrow> js_error + SymbolRecord list) \<Rightarrow> string option \<Rightarrow> SymbolSearchQuery
     \<Rightarrow> js_error + SymbolSearchResult list" where
  "symbolSearch searchByQuery proj query =
     (case searchByQuery (search_options proj query) of
        Inl err \<Rightarrow> Inl err
      | Inr records \<Rightarrow> reshape_all records)"

section \<open>The index coordinator (index-coordinator.ts)\<close>

subsection \<open>Lock, buffer and debounce timer\<close>

datatype event_type = Create | Change | Delete

record FileChangeEvent =
  eventType :: event_type
  filePath :: string

definition WATCHER_DEBOUNCE_MS :: nat where
  "WATCHER_DEBOUNCE_MS = 100"

text \<open>
  The fields of the coordinator that the intake and the lock handle. A promise is identified
  with the run it belongs to: \<open>runs\<close> lists the calls of \<^verbatim>\<open>_doIndex\<close> made so far with their
  arguments (\<open>None\<close> for \<^verbatim>\<open>events = undefined\<close>), and \<open>currentIndexing = Some i\<close> is the promise
  of the \<open>i\<close>-th of them. An armed debounce timer is the time, in milliseconds, at which it
  fires. \<open>tsconfigLoads\<close> counts the calls of \<^verbatim>\<open>loadTsconfigPaths\<close> (\<^verbatim>\<open>tsconfigPathsRaw\<close> is the
  result of the last one), \<open>discoverCalls\<close> those of \<^verbatim>\<open>discoverProjects\<close>, and a pending
  \<^verbatim>\<open>boundariesRefresh\<close> is the number of the call it comes from.
\<close>

record coordinator =
  indexingLock :: bool
  pendingEvents :: "FileChangeEvent list"
  debounceTimer :: "nat option"
  currentIndexing :: "nat option"
  pendingFullIndex :: bool
  tsconfigLoads :: nat
  discoverCalls :: nat
  boundariesRefresh :: "nat option"
  runs :: "(FileChangeEvent list option \<times> bool) list"

text \<open>
  \<^verbatim>\<open>_startIndex\<close>, up to the creation of the promise \<^verbatim>\<open>work\<close>. With the lock held it returns the
  promise in flight (and notes a requested full run); otherwise it takes the lock and calls
  \<^verbatim>\<open>_doIndex\<close>, which starts the run.
\<close>

definition startIndex ::
  "FileChangeEvent list option \<Rightarrow> bool \<Rightarrow> coordinator \<Rightarrow> nat option \<times> coordinator" where
  "startIndex events useTransaction st =
     (if indexingLock st then
        (currentIndexing st, if useTransaction then st\<lparr>pendingFullIndex := True\<rparr> else st)
      else
        (let st1 = st\<lparr>indexingLock := True\<rparr>;
             work = length (runs st1);
             st2 = st1\<lparr>runs := runs st1 @ [(events, useTransaction)]\<rparr>
         in (Some work, st2\<lparr>currentIndexing := Some work\<rparr>)))"

definition fullIndex :: "coordinator \<Rightarrow> nat option \<times> coordinator" where
  "fullIndex st = startIndex None True st"

definition incrementalIndex :: "FileChangeEvent list option \<Rightarrow> coordinator \<Rightarrow> nat option \<times> coordinator" where
  "incrementalIndex events st = startIndex events False st"

text \<open>
  The callback of \<^verbatim>\<open>.finally\<close>, in its two steps: the release of the lock (the first two
  assignments) and the drain (the \<^verbatim>\<open>if\<close> \dots \<^verbatim>\<open>else if\<close> that follows).
\<close>

definition release_lock :: "coordinator \<Rightarrow> coordinator" where
  "release_lock st = st\<lparr>indexingLock := False, currentIndexing := None\<rparr>"

definition drain_pending :: "coordinator \<Rightarrow> coordinator" where
  "drain_pending st =
     (if pendingFullIndex st then
        snd (startIndex None True (st\<lparr>pendingFullIndex := False\<rparr>))
      else if 0 < length (pendingEvents st) then
        (let drained = pendingEvents st
         in snd (startIndex (Some drained) False (st\<lparr>pendingEvents := []\<rparr>)))
      else st)"

definition finalizer :: "coordinator \<Rightarrow> coordinator" where
  "finalizer st = drain_pending (release_lock st)"

text \<open>
  How the promise \<^verbatim>\<open>work\<close> settles. The promise of \<^verbatim>\<open>_doIndex\<close> resolves with a result or
  rejects with a thrown value. \<^verbatim>\<open>.then\<close> runs the subscribers on a result only; a subscriber is
  any code acting on the coordinator, and what it throws is caught and logged. \<^verbatim>\<open>.finally\<close>
  runs its callback in both cases and passes the outcome on.
\<close>

datatype 'r outcome = Resolved 'r | Rejected js_error

definition fireCallbacks :: "('r \<Rightarrow> coordinator \<Rightarrow> coordinator) list \<Rightarrow> 'r \<Rightarrow> coordinator \<Rightarrow> coordinator" where
  "fireCallbacks callbacks result st = fold (\<lambda>cb s. cb result s) callbacks st"

definition work_settles ::
  "('r \<Rightarrow> coordinator \<Rightarrow> coordinator) list \<Rightarrow> 'r outcome \<Rightarrow> coordinator \<Rightarrow> 'r outcome \<times> coordinator" where
  "work_settles callbacks doIndex_outcome st =
     (case doIndex_outcome of
        Resolved result \<Rightarrow> (Resolved result, finalizer (fireCallbacks callbacks result st))
      | Rejected err \<Rightarrow> (Rejected err, finalizer st))"

text \<open>\<^verbatim>\<open>_flushPending\<close>, and the callback of the debounce timer.\<close>

definition flushPending :: "coordinator \<Rightarrow> coordinator" where
  "flushPending st =
     (if indexingLock st then st
      else if 0 < length (pendingEvents st) then
        (let events = pendingEvents st
         in snd (startIndex (Some events) False (st\<lparr>pendingEvents := []\<rparr>)))
      else st)"

definition timer_fires :: "coordinator \<Rightarrow> coordinator" where
  "timer_fires st = flushPending (st\<lparr>debounceTimer := None\<rparr>)"

text \<open>\<^verbatim>\<open>handleWatcherEvent\<close>, called at time \<open>now\<close> (milliseconds).\<close>

definition handleWatcherEvent :: "nat \<Rightarrow> FileChangeEvent \<Rightarrow> coordinator \<Rightarrow> coordinator" where
  "handleWatcherEvent now event st =
     (if endsWith (filePath event) ''tsconfig.json'' then
        snd (fullIndex (st\<lparr>tsconfigLoads := tsconfigLoads st + 1\<rparr>))
      else
        (let st1 = (if endsWith (filePath event) ''package.json''
                    then st\<lparr>discoverCalls := discoverCalls st + 1,
                            boundariesRefresh := Some (discoverCalls st)\<rparr>
                    else st);
             st2 = st1\<lparr>pendingEvents := pendingEvents st1 @ [event]\<rparr>
         in if debounceTimer st2 = None
            then st2\<lparr>debounceTimer := Some (now + WATCHER_DEBOUNCE_MS)\<rparr>
            else st2))"

text \<open>The coordinator as its constructor leaves it: one load of the alias table, nothing else.\<close>

definition new_coordinator :: coordinator where
  "new_coordinator = \<lparr> indexingLock = False, pendingEvents = [], debounceTimer = None,
     currentIndexing = None, pendingFullIndex = False, tsconfigLoads = 1, discoverCalls = 0,
     boundariesRefresh = None, runs = [] \<rparr>"

subsection \<open>One indexing run: the collaborators\<close>

text \<open>
  \<^verbatim>\<open>_doIndex\<close> works through injected collaborators: the repositories, the parse cache, the
  parser, the two indexers, the change detector, the file system and the clock. Each is a
  parameter here. A collaborator acts on the world outside the coordinator, of type \<open>'s\<close>,
  and either returns a value or throws; what it changed before throwing stays changed. The
  steps of a run follow one another on that world: nothing else writes to it in between.
\<close>

type_synonym ('s, 'a) act = "'s \<Rightarrow> (js_error + 'a) \<times> 's"

definition ret :: "'a \<Rightarrow> ('s, 'a) act" where
  "ret a s = (Inr a, s)"

definition and_then :: "('s, 'a) act \<Rightarrow> ('a \<Rightarrow> ('s, 'b) act) \<Rightarrow> ('s, 'b) act" where
  "and_then m f s = (case m s of (Inl err, s') \<Rightarrow> (Inl err, s') | (Inr a, s') \<Rightarrow> f a s')"

text \<open>A \<^verbatim>\<open>for ... of\<close> loop whose body may throw, with the variables it updates as accumulator.\<close>

fun fold_act :: "('a \<Rightarrow> 'b \<Rightarrow> ('s, 'b) act) \<Rightarrow> 'a list \<Rightarrow> 'b \<Rightarrow> ('s, 'b) act" where
  "fold_act body [] acc s = (Inr acc, s)"
| "fold_act body (x # xs) acc s =
     (case body x acc s of
        (Inl err, s') \<Rightarrow> (Inl err, s')
      | (Inr acc', s') \<Rightarrow> fold_act body xs acc' s')"

text \<open>\<^verbatim>\<open>Map.prototype.set\<close> on a map kept in insertion order.\<close>

fun map_set :: "'k \<Rightarrow> 'v \<Rightarrow> ('k \<times> 'v) list \<Rightarrow> ('k \<times> 'v) list" where
  "map_set k v [] = [(k, v)]"
| "map_set k v ((k', v') # m) = (if k' = k then (k, v) # m else (k', v') # map_set k v m)"

text \<open>An entry of \<^verbatim>\<open>changed\<close>; the result of the run.\<close>

record ChangedFile =
  c_filePath :: string
  c_contentHash :: string
  c_mtimeMs :: int
  c_size :: int

record IndexResult =
  indexedFiles :: nat
  removedFiles :: nat
  totalSymbols :: nat
  totalRelations :: nat
  durationMs :: int
  changedFiles :: "string list"
  deletedFiles :: "string list"
  failedFiles :: "string list"

text \<open>
  The collaborators. \<open>boundaries\<close> reads \<^verbatim>\<open>this.opts.boundaries\<close>, a list of
  \<open>(dir, project)\<close>; \<open>awaitBoundariesRefresh\<close> awaits a pending refresh, when there is one,
  and clears it; \<open>awaitTsconfigPaths\<close> awaits the alias table; \<open>toAbsolutePath\<close> is taken at
  the project root; \<open>readText\<close> is \<^verbatim>\<open>Bun.file(path).text()\<close> and \<open>fileStat\<close> gives
  \<^verbatim>\<open>lastModified\<close> and \<^verbatim>\<open>size\<close>; \<open>clock\<close> is \<^verbatim>\<open>Date.now()\<close> and \<open>isoNow\<close> is
  \<^verbatim>\<open>new Date().toISOString()\<close>.
\<close>

record ('s, 'ast, 'ts) deps =
  clock :: "'s \<Rightarrow> int"
  isoNow :: "'s \<Rightarrow> string"
  boundaries :: "'s \<Rightarrow> (string \<times> string) list"
  awaitBoundariesRefresh :: "('s, unit) act"
  awaitTsconfigPaths :: "('s, 'ts) act"
  resolveFileProject :: "string \<Rightarrow> (string \<times> string) list \<Rightarrow> string"
  toAbsolutePath :: "string \<Rightarrow> string"
  hashString :: "string \<Rightarrow> string"
  detectChanges :: "(string \<times> FileRecord) list \<Rightarrow> ('s, ChangedFile list \<times> string list) act"
  readText :: "string \<Rightarrow> ('s, string) act"
  fileStat :: "string \<Rightarrow> 's \<Rightarrow> int \<times> int"
  parseFn :: "string \<Rightarrow> string \<Rightarrow> ('s, 'ast) act"
  parseCache_set :: "string \<Rightarrow> 'ast \<Rightarrow> ('s, unit) act"
  fileRepo_getFilesMap :: "string \<Rightarrow> ('s, (string \<times> FileRecord) list) act"
  fileRepo_getAllFiles :: "string \<Rightarrow> ('s, FileRecord list) act"
  fileRepo_upsertFile :: "FileRecord \<Rightarrow> ('s, unit) act"
  fileRepo_deleteFile :: "string \<Rightarrow> string \<Rightarrow> ('s, unit) act"
  symbolRepo_getFileSymbols :: "string \<Rightarrow> string \<Rightarrow> ('s, SymbolRecord list) act"
  symbolRepo_getByFingerprint :: "string \<Rightarrow> string \<Rightarrow> ('s, SymbolRecord list) act"
  symbolRepo_deleteFileSymbols :: "string \<Rightarrow> string \<Rightarrow> ('s, unit) act"
  relationRepo_deleteFileRelations :: "string \<Rightarrow> string \<Rightarrow> ('s, unit) act"
  relationRepo_retargetRelations ::
    "string \<Rightarrow> string \<Rightarrow> string option \<Rightarrow> string \<Rightarrow> string option \<Rightarrow> ('s, unit) act"
  indexFileSymbols :: "'ast \<Rightarrow> string \<Rightarrow> string \<Rightarrow> string \<Rightarrow> ('s, unit) act"
  indexFileRelations :: "'ast \<Rightarrow> string \<Rightarrow> string \<Rightarrow> 'ts \<Rightarrow> ('s, nat) act"
  dbConnection_transaction :: "('s, nat \<times> nat) act \<Rightarrow> ('s, nat \<times> nat) act"

subsection \<open>One indexing run: \<^verbatim>\<open>_doIndex\<close>\<close>

text \<open>Step 2: the changeset, from the explicit events or from the change detector.\<close>

definition classify_events :: "FileChangeEvent list \<Rightarrow> ChangedFile list \<times> string list" where
  "classify_events events =
     (map (\<lambda>e. \<lparr> c_filePath = filePath e, c_contentHash = [], c_mtimeMs = 0, c_size = 0 \<rparr>)
          (filter (\<lambda>e. eventType e = Create \<or> eventType e = Change) events),
      map filePath (filter (\<lambda>e. eventType e = Delete) events))"

definition aggregate_files :: "('s, 'ast, 'ts) deps \<Rightarrow> ('s, (string \<times> FileRecord) list) act" where
  "aggregate_files deps s =
     fold_act (\<lambda>boundary existingMap.
                 and_then (fileRepo_getFilesMap deps (snd boundary))
                   (\<lambda>fm. ret (fold (\<lambda>(key, val) m. map_set key val m) fm existingMap)))
       (boundaries deps s) [] s"

definition determine_changes ::
  "('s, 'ast, 'ts) deps \<Rightarrow> FileChangeEvent list option \<Rightarrow> ('s, ChangedFile list \<times> string list) act" where
  "determine_changes deps events =
     (case events of
        Some evs \<Rightarrow> ret (classify_events evs)
      | None \<Rightarrow> and_then (aggregate_files deps) (\<lambda>existingMap. detectChanges deps existingMap))"

text \<open>Step 4: the symbols of every deleted path, read before anything is deleted.\<close>

definition snapshot_deleted ::
  "('s, 'ast, 'ts) deps \<Rightarrow> string list \<Rightarrow> ('s, (string \<times> SymbolRecord list) list) act" where
  "snapshot_deleted deps deleted =
     fold_act (\<lambda>path deletedSymbols s.
                 and_then (symbolRepo_getFileSymbols deps
                             (resolveFileProject deps path (boundaries deps s)) path)
                   (\<lambda>syms. ret (map_set path syms deletedSymbols)) s)
       deleted []"

definition processDeleted :: "('s, 'ast, 'ts) deps \<Rightarrow> string list \<Rightarrow> ('s, unit) act" where
  "processDeleted deps deleted =
     fold_act (\<lambda>path u s.
                 (let proj = resolveFileProject deps path (boundaries deps s)
                  in and_then (symbolRepo_deleteFileSymbols deps proj path)
                       (\<lambda>u. and_then (relationRepo_deleteFileRelations deps proj path)
                          (\<lambda>u. fileRepo_deleteFile deps proj path))) s)
       deleted ()"

text \<open>\<^verbatim>\<open>knownHash || hashString(text)\<close>: an absent or empty known hash is falsy.\<close>

definition hash_or :: "string option \<Rightarrow> string \<Rightarrow> string" where
  "hash_or knownHash computed =
     (case knownHash of None \<Rightarrow> computed | Some h \<Rightarrow> if h = [] then computed else h)"

text \<open>
  The part of a file's processing that follows the parse, common to \<^verbatim>\<open>_processFile\<close> and to
  the body of the full-index transaction: cache the tree, upsert the file record, index
  symbols and relations, count the file's symbols. It returns the symbol and relation counts.
  \<open>stat\<close> gives the modification time and size written into the file record.
\<close>

definition store_parsed ::
  "('s, 'ast, 'ts) deps \<Rightarrow> string \<Rightarrow> string \<Rightarrow> 'ast \<Rightarrow> string \<Rightarrow> ('s \<Rightarrow> int \<times> int) \<Rightarrow> 'ts
     \<Rightarrow> ('s, nat \<times> nat) act" where
  "store_parsed deps proj path parsed contentHash stat tsconfigPaths =
     and_then (parseCache_set deps path parsed)
       (\<lambda>u. and_then (\<lambda>s. fileRepo_upsertFile deps
                              \<lparr> f_project = proj, f_filePath = path, f_mtimeMs = fst (stat s),
                                f_size = snd (stat s), f_contentHash = contentHash,
                                f_updatedAt = isoNow deps s \<rparr> s)
          (\<lambda>u. and_then (indexFileSymbols deps parsed proj path contentHash)
             (\<lambda>u. and_then (indexFileRelations deps parsed proj path tsconfigPaths)
                (\<lambda>relCount. and_then (symbolRepo_getFileSymbols deps proj path)
                   (\<lambda>syms. ret (length syms, relCount))))))"

text \<open>\<^verbatim>\<open>_processFile\<close>: read, hash, parse, then store.\<close>

definition processFile ::
  "('s, 'ast, 'ts) deps \<Rightarrow> string \<Rightarrow> string option \<Rightarrow> 'ts \<Rightarrow> ('s, nat \<times> nat) act" where
  "processFile deps path knownHash tsconfigPaths s0 =
     (let bounds = boundaries deps s0;
          absPath = toAbsolutePath deps path
      in and_then (readText deps absPath)
           (\<lambda>text s1.
              (let contentHash = hash_or knownHash (hashString deps text);
                   proj = resolveFileProject deps path bounds
               in and_then (parseFn deps absPath text)
                    (\<lambda>parsed.
                       store_parsed deps proj path parsed contentHash (fileStat deps absPath)
                         tsconfigPaths)) s1) s0)"

text \<open>
  \<^verbatim>\<open>processChanged\<close>: every changed file in turn, inside \<^verbatim>\<open>try\<close>/\<^verbatim>\<open>catch\<close>. A file whose
  processing throws is logged and added to \<^verbatim>\<open>failedFiles\<close>, and the loop goes on. The
  function itself cannot throw.
\<close>

record counts =
  cnt_symbols :: nat
  cnt_relations :: nat
  cnt_failedFiles :: "string list"

fun processChanged ::
  "('s, 'ast, 'ts) deps \<Rightarrow> 'ts \<Rightarrow> ChangedFile list \<Rightarrow> counts \<Rightarrow> 's \<Rightarrow> counts \<times> 's" where
  "processChanged deps tsconfigPaths [] acc s = (acc, s)"
| "processChanged deps tsconfigPaths (file # rest) acc s =
     (case processFile deps (c_filePath file)
             (if c_contentHash file = [] then None else Some (c_contentHash file))
             tsconfigPaths s of
        (Inr (symbolCount, relCount), s') \<Rightarrow>
          processChanged deps tsconfigPaths rest
            (acc\<lparr>cnt_symbols := cnt_symbols acc + symbolCount,
                 cnt_relations := cnt_relations acc + relCount\<rparr>) s'
      | (Inl err, s') \<Rightarrow>
          processChanged deps tsconfigPaths rest
            (acc\<lparr>cnt_failedFiles := cnt_failedFiles acc @ [c_filePath file]\<rparr>) s')"

definition no_counts :: counts where
  "no_counts = \<lparr> cnt_symbols = 0, cnt_relations = 0, cnt_failedFiles = [] \<rparr>"

text \<open>
  The full index: every changed file is read before the transaction; inside it all file rows
  of every project boundary are deleted and the files read are parsed and stored. The reads
  of \<^verbatim>\<open>Promise.all\<close> are taken in list order.
\<close>

record preread =
  pr_filePath :: string
  pr_text :: string
  pr_contentHash :: string
  pr_stat :: "int \<times> int"

definition preread_all :: "('s, 'ast, 'ts) deps \<Rightarrow> ChangedFile list \<Rightarrow> ('s, preread list) act" where
  "preread_all deps changed =
     fold_act (\<lambda>file acc.
                 and_then (readText deps (toAbsolutePath deps (c_filePath file)))
                   (\<lambda>text s.
                      (Inr (acc @ [\<lparr> pr_filePath = c_filePath file, pr_text = text,
                                      pr_contentHash = hash_or (Some (c_contentHash file))
                                                         (hashString deps text),
                                      pr_stat = fileStat deps (toAbsolutePath deps (c_filePath file)) s \<rparr>]),
                       s)))
       changed []"

definition delete_all_files :: "('s, 'ast, 'ts) deps \<Rightarrow> (string \<times> string) list \<Rightarrow> ('s, unit) act" where
  "delete_all_files deps bounds =
     fold_act (\<lambda>boundary u.
                 and_then (fileRepo_getAllFiles deps (snd boundary))
                   (\<lambda>projectFiles.
                      fold_act (\<lambda>f u. fileRepo_deleteFile deps (f_project f) (f_filePath f))
                        projectFiles ()))
       bounds ()"

definition full_apply :: "('s, 'ast, 'ts) deps \<Rightarrow> ChangedFile list \<Rightarrow> 'ts \<Rightarrow> ('s, counts) act" where
  "full_apply deps changed tsconfigPaths s0 =
     (let bounds = boundaries deps s0
      in and_then (preread_all deps changed)
           (\<lambda>prereads.
              and_then
                (dbConnection_transaction deps
                   (and_then (delete_all_files deps bounds)
                      (\<lambda>u. fold_act
                              (\<lambda>fd (symbols, relations).
                                 and_then
                                   (parseFn deps (toAbsolutePath deps (pr_filePath fd)) (pr_text fd))
                                   (\<lambda>parsed.
                                      and_then
                                        (store_parsed deps
                                           (resolveFileProject deps (pr_filePath fd) bounds)
                                           (pr_filePath fd) parsed (pr_contentHash fd)
                                           (\<lambda>s. pr_stat fd) tsconfigPaths)
                                        (\<lambda>(symbolCount, relCount).
                                           ret (symbols + symbolCount, relations + relCount))))
                              prereads (0, 0))))
                (\<lambda>(symbols, relations).
                   ret \<lparr> cnt_symbols = symbols, cnt_relations = relations,
                         cnt_failedFiles = [] \<rparr>)) s0)"

text \<open>
  Step 6, the move retargeting. A symbol whose fingerprint is falsy (null, or the empty
  string) is passed over; otherwise the fingerprint is looked up in the project of the old
  file, and only a result of exactly one symbol leads to a call of \<^verbatim>\<open>retargetRelations\<close>.
\<close>

definition retarget_symbol ::
  "('s, 'ast, 'ts) deps \<Rightarrow> string \<Rightarrow> SymbolRecord \<Rightarrow> unit \<Rightarrow> ('s, unit) act" where
  "retarget_symbol deps oldFile symb u s =
     (case s_fingerprint symb of
        None \<Rightarrow> (Inr (), s)
      | Some fp \<Rightarrow>
          if fp = [] then (Inr (), s)
          else
            (let oldProject = resolveFileProject deps oldFile (boundaries deps s)
             in and_then (symbolRepo_getByFingerprint deps oldProject fp)
                  (\<lambda>matches.
                     case matches of
                       [newSym] \<Rightarrow>
                         relationRepo_retargetRelations deps oldProject oldFile
                           (Some (s_name symb)) (s_filePath newSym) (Some (s_name newSym))
                     | _ \<Rightarrow> ret ()) s))"

definition retarget ::
  "('s, 'ast, 'ts) deps \<Rightarrow> (string \<times> SymbolRecord list) list \<Rightarrow> ('s, unit) act" where
  "retarget deps deletedSymbols =
     fold_act (\<lambda>(oldFile, syms) u. fold_act (retarget_symbol deps oldFile) syms ())
       deletedSymbols ()"

text \<open>\<^verbatim>\<open>_doIndex(events, useTransaction)\<close>.\<close>

definition doIndex ::
  "('s, 'ast, 'ts) deps \<Rightarrow> FileChangeEvent list option \<Rightarrow> bool \<Rightarrow> ('s, IndexResult) act" where
  "doIndex deps events useTransaction s0 =
     (let start = clock deps s0
      in and_then (awaitBoundariesRefresh deps)
           (\<lambda>u. and_then (determine_changes deps events)
              (\<lambda>(changed, deleted).
                 and_then (awaitTsconfigPaths deps)
                   (\<lambda>tsconfigPaths.
                      and_then (snapshot_deleted deps deleted)
                        (\<lambda>deletedSymbols.
                           and_then
                             (if useTransaction then full_apply deps changed tsconfigPaths
                              else and_then (processDeleted deps deleted)
                                     (\<lambda>u s. case processChanged deps tsconfigPaths changed no_counts s of
                                               (cnts, s') \<Rightarrow> (Inr cnts, s')))
                             (\<lambda>cnts.
                                and_then (retarget deps deletedSymbols)
                                  (\<lambda>u s.
                                     (Inr \<lparr> indexedFiles = length changed,
                                            removedFiles = length deleted,
                                            totalSymbols = cnt_symbols cnts,
                                            totalRelations = cnt_relations cnts,
                                            durationMs = clock deps s - start,
                                            changedFiles = map c_filePath changed,
                                            deletedFiles = deleted,
                                            failedFiles = cnt_failedFiles cnts \<rparr>, s))))))) s0)"

text \<open>
  The calls of \<^verbatim>\<open>retargetRelations\<close> the specification asks for, written after its words:
  for every entry of the snapshot and every symbol of it with a fingerprint that is present,
  one call when the lookup \<open>g\<close> gives exactly one symbol. \<open>proj\<close> is the project of a path.
\<close>

type_synonym retarget_call = "string \<times> string \<times> string option \<times> string \<times> string option"

definition expected_calls ::
  "(string \<Rightarrow> string) \<Rightarrow> (string \<Rightarrow> string \<Rightarrow> SymbolRecord list)
     \<Rightarrow> (string \<times> SymbolRecord list) list \<Rightarrow> retarget_call list" where
  "expected_calls proj g snapshot =
     concat (map (\<lambda>(oldPath, syms).
                    concat (map (\<lambda>symb.
                                   case s_fingerprint symb of
                                     None \<Rightarrow> []
                                   | Some fp \<Rightarrow>
                                       if fp = [] then []
                                       else (case g (proj oldPath) fp of
                                               [m] \<Rightarrow> [(proj oldPath, oldPath, Some (s_name symb),
                                                        s_filePath m, Some (s_name m))]
                                             | _ \<Rightarrow> [])) syms)) snapshot)"

definition perform_calls :: "('s, 'ast, 'ts) deps \<Rightarrow> retarget_call list \<Rightarrow> ('s, unit) act" where
  "perform_calls deps calls =
     fold_act (\<lambda>(p, oldFile, oldSymbol, newFile, newSymbol) u.
                 relationRepo_retargetRelations deps p oldFile oldSymbol newFile newSymbol)
       calls ()"

section \<open>Concrete inputs\<close>

text \<open>Small concrete stores and rows, used where a statement is evaluated at an explicit input.\<close>

definition ex_file :: "string \<Rightarrow> FileRecord" where
  "ex_file path = \<lparr> f_project = ''p'', f_filePath = path, f_mtimeMs = 1000, f_size = 100,
     f_contentHash = ''abc123'', f_updatedAt = ''2026-01-01T00:00:00.000Z'' \<rparr>"

definition ex_rel :: "string \<Rightarrow> string \<Rightarrow> RelationRecord" where
  "ex_rel src dst = \<lparr> project = ''p'', rtype = ''imports'', srcFilePath = src,
     srcSymbolName = None, dstFilePath = dst, dstSymbolName = None, metaJson = None \<rparr>"

definition ex_db :: db where
  "ex_db = \<lparr> files = [ex_file ''a.ts'', ex_file ''b.ts''], relations = [] \<rparr>"

definition ex_missing :: PartialRelationRecord where
  "ex_missing = \<lparr> p_project = None, p_type = None, p_srcFilePath = None, p_srcSymbolName = None,
     p_dstFilePath = None, p_dstSymbolName = None, p_metaJson = None \<rparr>"

definition ex_conn :: "string list DbConnection" where
  "ex_conn = \<lparr> client = Some \<lparr> contents = [], frames = [] \<rparr>, drizzle = True,
     dbPath = ''/project/.zipbul/code-ledger.db'', txDepth = 0 \<rparr>"

text \<open>A body that writes a row and throws, and one that writes a row and returns 42.\<close>

definition ex_write :: "string list DbConnection \<Rightarrow> string list DbConnection" where
  "ex_write c = c\<lparr>client := map_option (\<lambda>e. e\<lparr>contents := ''src/index.ts'' # contents e\<rparr>) (client c)\<rparr>"

definition ex_write_throw :: "(string list, nat) dbfun" where
  "ex_write_throw c = (Inl (Error ''rollback!''), ex_write c)"

definition ex_write_return :: "(string list, nat) dbfun" where
  "ex_write_return c = (Inr 42, ex_write c)"

text \<open>
  The same connection at a nested level: depth 1, inside an open \<^verbatim>\<open>BEGIN\<close> that started
  from an empty store and has written one row since.
\<close>

definition ex_nested :: "string list DbConnection" where
  "ex_nested = \<lparr> client = Some \<lparr> contents = [''a.ts''], frames = [(None, [])] \<rparr>, drizzle = True,
     dbPath = ''/project/.zipbul/code-ledger.db'', txDepth = 1 \<rparr>"

text \<open>
  Bodies that end the transaction themselves: one issues \<^verbatim>\<open>ROLLBACK\<close> and then throws, the
  other issues \<^verbatim>\<open>COMMIT\<close> and then returns 42.
\<close>

definition ex_rollback_throw :: "(string list, nat) dbfun" where
  "ex_rollback_throw c = (Inl (Error ''disk full''), snd (run Rollback c))"

definition ex_commit_return :: "(string list, nat) dbfun" where
  "ex_commit_return c = (Inr 42, snd (run Commit c))"

text \<open>
  An environment in which the first two passes fail in \<^verbatim>\<open>migrate\<close> with SQLite's corruption
  message, each leaving a database file behind, and the third pass succeeds.
\<close>

definition ex_env :: "string list env" where
  "ex_env n dsk =
     (if n < 2
      then (MigrateThrows (Error ''database disk image is malformed'') \<lparr> contents = [], frames = [] \<rparr>,
            dsk \<union> {''/project/.zipbul/code-ledger.db'', ''/project/.zipbul/code-ledger.db-wal''})
      else (Opens \<lparr> contents = [], frames = [] \<rparr>,
            dsk \<union> {''/project/.zipbul/code-ledger.db''}))"

text \<open>An environment in which every pass fails that way.\<close>

definition ex_env_always :: "string list env" where
  "ex_env_always n dsk =
     (MigrateThrows (Error ''database disk image is malformed'') \<lparr> contents = [], frames = [] \<rparr>,
      dsk \<union> {''/project/.zipbul/code-ledger.db''})"

definition ex_world :: "string list world" where
  "ex_world = \<lparr> conn = \<lparr> client = None, drizzle = False,
                          dbPath = ''/project/.zipbul/code-ledger.db'', txDepth = 0 \<rparr>,
                disk = {''/project/.zipbul/code-ledger.db''}, attempts = 0 \<rparr>"

definition ex_symbol :: "string \<Rightarrow> string \<Rightarrow> string option \<Rightarrow> string option \<Rightarrow> SymbolRecord" where
  "ex_symbol path nm fp detail = \<lparr> s_id = 1, s_project = ''p'', s_filePath = path,
     s_kind = ''function'', s_name = nm, s_startLine = 1, s_startColumn = 0, s_endLine = 5,
     s_endColumn = 1, s_isExported = 1, s_signature = Some ''params:1|async:0'',
     s_fingerprint = fp, s_detailJson = detail, s_contentHash = ''abc123'',
     s_indexedAt = ''2026-01-01T00:00:00.000Z'' \<rparr>"

definition ex_query :: SymbolSearchQuery where
  "ex_query = \<lparr> q_text = Some ''User Svc'', q_kind = None, q_filePath = None, q_isExported = None,
     q_project = None, q_limit = None \<rparr>"

text \<open>A repository whose query returns the given rows.\<close>

definition ex_repo :: "SymbolRecord list \<Rightarrow> search_opts \<Rightarrow> js_error + SymbolRecord list" where
  "ex_repo rows opts = Inr rows"

definition ex_json :: string where
  "ex_json = ''{'' @ [CHR 0x22] @ ''returnType'' @ [CHR 0x22] @ '': ['' @ [CHR 0x22] @ ''T'' @ [CHR 0x22] @ '', 1]}''"

text \<open>
  Collaborators in the manner of the unit tests of the coordinator. The world records the
  calls of \<^verbatim>\<open>retargetRelations\<close> and a log of the writes; symbol lookups answer from the fixed
  tables \<open>fileSymbols\<close> and \<open>byFingerprint\<close>; reading a path listed in \<open>unreadable\<close> throws.
\<close>

record mock_world =
  retargets :: "retarget_call list"
  oplog :: "string list"

definition mock_log :: "string \<Rightarrow> (mock_world, unit) act" where
  "mock_log entry s = (Inr (), s\<lparr>oplog := oplog s @ [entry]\<rparr>)"

definition mock_deps ::
  "(string \<Rightarrow> string \<Rightarrow> SymbolRecord list) \<Rightarrow> (string \<Rightarrow> string \<Rightarrow> SymbolRecord list)
     \<Rightarrow> string list \<Rightarrow> (mock_world, string, unit) deps" where
  "mock_deps fileSymbols byFingerprint unreadable =
     \<lparr> clock = (\<lambda>s. 0),
       isoNow = (\<lambda>s. ''2026-01-01T00:00:00.000Z''),
       boundaries = (\<lambda>s. [(''.'', ''p'')]),
       awaitBoundariesRefresh = ret (),
       awaitTsconfigPaths = ret (),
       resolveFileProject = (\<lambda>path bounds. ''p''),
       toAbsolutePath = (\<lambda>path. ''/project/'' @ path),
       hashString = (\<lambda>text. ''0123456789abcdef''),
       detectChanges = (\<lambda>existingMap. ret ([], [])),
       readText = (\<lambda>path s. if path \<in> set unreadable then (Inl (Error ''ENOENT''), s)
                              else (Inr ''mock source'', s)),
       fileStat = (\<lambda>path s. (1000, 100)),
       parseFn = (\<lambda>path text. ret text),
       parseCache_set = (\<lambda>path parsed. ret ()),
       fileRepo_getFilesMap = (\<lambda>p. ret []),
       fileRepo_getAllFiles = (\<lambda>p. ret []),
       fileRepo_upsertFile = (\<lambda>r. mock_log (''upsert '' @ f_filePath r)),
       fileRepo_deleteFile = (\<lambda>p path. mock_log (''delete '' @ path)),
       symbolRepo_getFileSymbols = (\<lambda>p path. ret (fileSymbols p path)),
       symbolRepo_getByFingerprint = (\<lambda>p fp. ret (byFingerprint p fp)),
       symbolRepo_deleteFileSymbols = (\<lambda>p path. ret ()),
       relationRepo_deleteFileRelations = (\<lambda>p path. ret ()),
       relationRepo_retargetRelations =
         (\<lambda>p oldFile oldSymbol newFile newSymbol s.
            (Inr (), s\<lparr>retargets := retargets s @ [(p, oldFile, oldSymbol, newFile, newSymbol)]\<rparr>)),
       indexFileSymbols = (\<lambda>parsed p path contentHash. mock_log (''symbols '' @ path)),
       indexFileRelations = (\<lambda>parsed p path tsconfigPaths. ret 0),
       dbConnection_transaction = (\<lambda>fn. fn) \<rparr>"

definition mock_start :: mock_world where
  "mock_start = \<lparr> retargets = [], oplog = [] \<rparr>"

text \<open>A lookup that finds exactly one symbol, in \<open>src/new.ts\<close>, whatever the fingerprint.\<close>

definition one_match :: "string \<Rightarrow> string \<Rightarrow> SymbolRecord list" where
  "one_match p fp = [ex_symbol ''src/new.ts'' ''movedFn'' (Some fp) None]"

definition no_symbols :: "string \<Rightarrow> string \<Rightarrow> SymbolRecord list" where
  "no_symbols p x = []"

definition ex_events :: "FileChangeEvent list" where
  "ex_events = [\<lparr>eventType = Create, filePath = ''src/a.ts''\<rparr>,
                \<lparr>eventType = Change, filePath = ''src/b.ts''\<rparr>,
                \<lparr>eventType = Change, filePath = ''src/c.ts''\<rparr>]"

definition ex_changed :: "string \<Rightarrow> ChangedFile" where
  "ex_changed path = \<lparr> c_filePath = path, c_contentHash = [], c_mtimeMs = 0, c_size = 0 \<rparr>"

text \<open>
  Collaborators acting on the store of the relation repository: \<^verbatim>\<open>retargetRelations\<close>,
  \<^verbatim>\<open>deleteFileRelations\<close> and \<^verbatim>\<open>deleteFile\<close> are the repository's own; symbol lookups answer
  from the fixed table \<open>byFingerprint\<close>.
\<close>

definition db_deps :: "(string \<Rightarrow> string \<Rightarrow> SymbolRecord list) \<Rightarrow> (db, string, unit) deps" where
  "db_deps byFingerprint =
     \<lparr> clock = (\<lambda>s. 0),
       isoNow = (\<lambda>s. ''2026-01-01T00:00:00.000Z''),
       boundaries = (\<lambda>s. [(''.'', ''p'')]),
       awaitBoundariesRefresh = ret (),
       awaitTsconfigPaths = ret (),
       resolveFileProject = (\<lambda>path bounds. ''p''),
       toAbsolutePath = (\<lambda>path. ''/project/'' @ path),
       hashString = (\<lambda>text. ''0123456789abcdef''),
       detectChanges = (\<lambda>existingMap. ret ([], [])),
       readText = (\<lambda>path. ret ''mock source''),
       fileStat = (\<lambda>path s. (1000, 100)),
       parseFn = (\<lambda>path text. ret text),
       parseCache_set = (\<lambda>path parsed. ret ()),
       fileRepo_getFilesMap = (\<lambda>p d. (Inr (map (\<lambda>f. (f_filePath f, f))
                                               (filter (\<lambda>f. f_project f = p) (files d))), d)),
       fileRepo_getAllFiles = (\<lambda>p d. (Inr (filter (\<lambda>f. f_project f = p) (files d)), d)),
       fileRepo_upsertFile = (\<lambda>r. ret ()),
       fileRepo_deleteFile = (\<lambda>p path d. (Inr (), deleteFile p path d)),
       symbolRepo_getFileSymbols = (\<lambda>p path. ret []),
       symbolRepo_getByFingerprint = (\<lambda>p fp. ret (byFingerprint p fp)),
       symbolRepo_deleteFileSymbols = (\<lambda>p path. ret ()),
       relationRepo_deleteFileRelations = (\<lambda>p path d. (Inr (), deleteFileRelations p path d)),
       relationRepo_retargetRelations =
         (\<lambda>p oldFile oldSymbol newFile newSymbol d.
            (Inr (), retargetRelations p oldFile oldSymbol newFile newSymbol d)),
       indexFileSymbols = (\<lambda>parsed p path contentHash. ret ()),
       indexFileRelations = (\<lambda>parsed p path tsconfigPaths. ret 0),
       dbConnection_transaction = (\<lambda>fn. fn) \<rparr>"

text \<open>The store of the first scenario after \<open>src/old.ts\<close> is gone: one import still points at it.\<close>

definition ex_moved_db :: db where
  "ex_moved_db = \<lparr> files = [ex_file ''src/other.ts'', ex_file ''src/new.ts''],
     relations = [(ex_rel ''src/other.ts'' ''src/old.ts'')\<lparr>dstSymbolName := Some ''movedFn''\<rparr>] \<rparr>"

definition ex_busy :: coordinator where
  "ex_busy = new_coordinator\<lparr>indexingLock := True, currentIndexing := Some 0,
     runs := [(None, False)], pendingFullIndex := True,
     pendingEvents := [\<lparr>eventType = Change, filePath = ''src/a.ts''\<rparr>]\<rparr>"

section \<open>Properties of the relation repository\<close>

lemma insert_rels_ok:
  "insert_rels proj src rels d = (Inr u, d') \<Longrightarrow>
     files d' = files d \<and> relations d' = relations d @ map (relation_values proj src) rels"
proof (induction rels arbitrary: d)
  case Nil
  then show ?case by simp
next
  case (Cons rel rels)
  then show ?case
    by (auto simp: insert_relation_def split: if_splits prod.splits sum.splits)
qed

lemma replaceFileRelations_ok:
  "replaceFileRelations proj src rels d = (Inr u, d') \<Longrightarrow>
     relations d' = filter (\<lambda>r. \<not> (project r = proj \<and> srcFilePath r = src)) (relations d)
                      @ map (relation_values proj src) rels"
  by (auto simp: replaceFileRelations_def deleteFileRelations_def Let_def
           dest: insert_rels_ok split: if_splits)

lemma relation_values_full:
  "relation_values proj src (full r) = r\<lparr>project := proj\<rparr>"
  by (simp add: relation_values_def full_def nullish_def)

lemma ex_replace_b:
  "replaceFileRelations ''p'' ''a.ts'' (map full [ex_rel ''b.ts'' ''c.ts'']) ex_db
     = (Inr (), ex_db\<lparr>relations := [ex_rel ''b.ts'' ''c.ts'']\<rparr>)"
  by (simp add: replaceFileRelations_def deleteFileRelations_def insert_relation_def fk_ok_def
        relation_values_def full_def nullish_def ex_db_def ex_rel_def ex_file_def)

lemma ex_replace_a:
  "replaceFileRelations ''p'' ''a.ts'' (map full [ex_rel ''a.ts'' ''c.ts'']) ex_db
     = (Inr (), ex_db\<lparr>relations := [ex_rel ''a.ts'' ''c.ts'']\<rparr>)"
  by (simp add: replaceFileRelations_def deleteFileRelations_def insert_relation_def fk_ok_def
        relation_values_def full_def nullish_def ex_db_def ex_rel_def ex_file_def)

lemma ex_replace_missing:
  "replaceFileRelations ''p'' ''a.ts'' [ex_missing] ex_db
     = (Inr (), ex_db\<lparr>relations := [relation_values ''p'' ''a.ts'' ex_missing]\<rparr>)"
  by (simp add: replaceFileRelations_def deleteFileRelations_def insert_relation_def fk_ok_def
        relation_values_def nullish_def ex_db_def ex_file_def ex_missing_def)

text \<open>
  C5, as stated, fails: a fully specified row keeps its own \<^verbatim>\<open>srcFilePath\<close>. Replacing the
  relations of \<open>(p, a.ts)\<close> with one row whose source is \<open>b.ts\<close> succeeds, after which
  \<open>getOutgoing p a.ts\<close> is empty (not the row written) and the outgoing relations of
  \<open>(p, b.ts)\<close>, a different source file, have changed.
\<close>

theorem replaceFileRelations_foreign_row_counterexample:
  "fst (replaceFileRelations ''p'' ''a.ts'' (map full [ex_rel ''b.ts'' ''c.ts'']) ex_db) = Inr ()
   \<and> set (getOutgoing ''p'' ''a.ts'' None
            (snd (replaceFileRelations ''p'' ''a.ts'' (map full [ex_rel ''b.ts'' ''c.ts'']) ex_db)))
       \<noteq> set [ex_rel ''b.ts'' ''c.ts'']
   \<and> getOutgoing ''p'' ''b.ts'' None
         (snd (replaceFileRelations ''p'' ''a.ts'' (map full [ex_rel ''b.ts'' ''c.ts'']) ex_db))
       \<noteq> getOutgoing ''p'' ''b.ts'' None ex_db"
proof -
  have a: "getOutgoing ''p'' ''a.ts'' None (ex_db\<lparr>relations := [ex_rel ''b.ts'' ''c.ts'']\<rparr>) = []"
    by (simp add: getOutgoing_def ex_rel_def)
  have b: "getOutgoing ''p'' ''b.ts'' None (ex_db\<lparr>relations := [ex_rel ''b.ts'' ''c.ts'']\<rparr>)
             = [ex_rel ''b.ts'' ''c.ts'']"
    by (simp add: getOutgoing_def ex_rel_def)
  have c: "getOutgoing ''p'' ''b.ts'' None ex_db = []"
    by (simp add: getOutgoing_def ex_db_def)
  show ?thesis
    unfolding ex_replace_b fst_conv snd_conv a b c by simp
qed

text \<open>
  C5, amended: when every row of \<open>R\<close> is fully specified and carries the call's own project
  \<open>P\<close> and source path \<open>F\<close>, and \<^verbatim>\<open>replaceFileRelations(P, F, R)\<close> returns normally, then
  \<^verbatim>\<open>getOutgoing(P, F)\<close> returns exactly the rows of \<open>R\<close> (as a set) and the rows of every other
  \<open>(project, srcFilePath)\<close> are unchanged.
\<close>

theorem replaceFileRelations_getOutgoing:
  assumes "replaceFileRelations P F (map full R) d = (Inr (), d')"
      and "\<forall>r \<in> set R. project r = P \<and> srcFilePath r = F"
  shows "set (getOutgoing P F None d') = set R \<and>
         filter (\<lambda>r. \<not> (project r = P \<and> srcFilePath r = F)) (relations d')
           = filter (\<lambda>r. \<not> (project r = P \<and> srcFilePath r = F)) (relations d)"
proof -
  have rel: "relations d' = filter (\<lambda>r. \<not> (project r = P \<and> srcFilePath r = F)) (relations d)
                      @ map (relation_values P F) (map full R)"
    using assms(1) by (rule replaceFileRelations_ok)
  have same: "map (relation_values P F) (map full R) = R"
    using assms(2) by (induction R) (simp_all add: relation_values_full)
  have rel': "relations d' = filter (\<lambda>r. \<not> (project r = P \<and> srcFilePath r = F)) (relations d) @ R"
    using rel unfolding same .
  have none: "filter (\<lambda>r. \<not> (project r = P \<and> srcFilePath r = F)) R = []"
    using assms(2) by (simp add: filter_empty_conv)
  have all: "filter (\<lambda>r. project r = P \<and> srcFilePath r = F) R = R"
    using assms(2) by (simp add: filter_id_conv)
  show ?thesis
    using none all by (simp add: rel' getOutgoing_def)
qed

theorem replaceFileRelations_getOutgoing_witness:
  "replaceFileRelations ''p'' ''a.ts'' (map full [ex_rel ''a.ts'' ''c.ts'']) ex_db
     = (Inr (), ex_db\<lparr>relations := [ex_rel ''a.ts'' ''c.ts'']\<rparr>)
   \<and> project (ex_rel ''a.ts'' ''c.ts'') = ''p'' \<and> srcFilePath (ex_rel ''a.ts'' ''c.ts'') = ''a.ts''
   \<and> set (getOutgoing ''p'' ''a.ts'' None (ex_db\<lparr>relations := [ex_rel ''a.ts'' ''c.ts'']\<rparr>))
       = set [ex_rel ''a.ts'' ''c.ts'']"
proof -
  have h2: "\<forall>r \<in> set [ex_rel ''a.ts'' ''c.ts'']. project r = ''p'' \<and> srcFilePath r = ''a.ts''"
    by (simp add: ex_rel_def)
  from replaceFileRelations_getOutgoing [OF ex_replace_a h2] ex_replace_a h2
  show ?thesis by simp
qed

text \<open>
  C9: with a symbol name \<open>s\<close>, \<^verbatim>\<open>getOutgoing(P, F, s)\<close> returns exactly the relations of
  \<open>(P, F)\<close> whose \<^verbatim>\<open>srcSymbolName\<close> equals \<open>s\<close>: it is the unfiltered result restricted to that
  name, and it holds no file-level relation (\<^verbatim>\<open>srcSymbolName\<close> null).
\<close>

theorem getOutgoing_symbol_exact:
  "getOutgoing P F (Some s) d = filter (\<lambda>r. srcSymbolName r = Some s) (getOutgoing P F None d)
   \<and> set (getOutgoing P F (Some s) d)
       = {r. r \<in> set (relations d) \<and> project r = P \<and> srcFilePath r = F \<and> srcSymbolName r = Some s}
   \<and> filter (\<lambda>r. srcSymbolName r = None) (getOutgoing P F (Some s) d) = []"
  by (auto simp: getOutgoing_def filter_empty_conv intro: filter_cong)

theorem getOutgoing_symbol_exact_witness:
  "getOutgoing ''p'' ''a.ts'' (Some ''myFn'')
     (ex_db\<lparr>relations := [(ex_rel ''a.ts'' ''b.ts'')\<lparr>srcSymbolName := Some ''myFn''\<rparr>,
                              ex_rel ''a.ts'' ''c.ts'']\<rparr>)
     = [(ex_rel ''a.ts'' ''b.ts'')\<lparr>srcSymbolName := Some ''myFn''\<rparr>]"
proof -
  let ?d = "ex_db\<lparr>relations := [(ex_rel ''a.ts'' ''b.ts'')\<lparr>srcSymbolName := Some ''myFn''\<rparr>,
                                   ex_rel ''a.ts'' ''c.ts'']\<rparr>"
  have all: "getOutgoing ''p'' ''a.ts'' None ?d = relations ?d"
    by (simp add: getOutgoing_def ex_rel_def)
  have "getOutgoing ''p'' ''a.ts'' (Some ''myFn'') ?d
          = filter (\<lambda>r. srcSymbolName r = Some ''myFn'') (getOutgoing ''p'' ''a.ts'' None ?d)"
    using getOutgoing_symbol_exact [of "''p''" "''a.ts''" "''myFn''" ?d] by blast
  then show ?thesis
    unfolding all by (simp add: ex_rel_def)
qed

text \<open>
  C10: the rows a successful \<^verbatim>\<open>replaceFileRelations(project, srcFilePath, rels)\<close> stores are the
  elements of \<^verbatim>\<open>rels\<close> with defaults substituted: a missing type becomes \<open>unknown\<close> (not one of
  the enumerated relation types), a missing \<^verbatim>\<open>srcFilePath\<close> the call's argument, a missing
  \<^verbatim>\<open>dstFilePath\<close> the empty string, and missing \<^verbatim>\<open>srcSymbolName\<close>, \<^verbatim>\<open>dstSymbolName\<close> and
  \<^verbatim>\<open>metaJson\<close> become null.
\<close>

theorem replaceFileRelations_defaults:
  assumes "replaceFileRelations P F rels d = (Inr (), d')"
  shows "relations d' = filter (\<lambda>r. \<not> (project r = P \<and> srcFilePath r = F)) (relations d)
                          @ map (relation_values P F) rels
   \<and> (\<forall>rel. (p_type rel = None \<longrightarrow> rtype (relation_values P F rel) = ''unknown'')
          \<and> (p_srcFilePath rel = None \<longrightarrow> srcFilePath (relation_values P F rel) = F)
          \<and> (p_dstFilePath rel = None \<longrightarrow> dstFilePath (relation_values P F rel) = '''')
          \<and> (p_srcSymbolName rel = None \<longrightarrow> srcSymbolName (relation_values P F rel) = None)
          \<and> (p_dstSymbolName rel = None \<longrightarrow> dstSymbolName (relation_values P F rel) = None)
          \<and> (p_metaJson rel = None \<longrightarrow> metaJson (relation_values P F rel) = None))
   \<and> ''unknown'' \<notin> relation_types"
  using replaceFileRelations_ok [OF assms]
  by (simp add: relation_values_def nullish_def relation_types_def)

theorem replaceFileRelations_defaults_witness:
  "replaceFileRelations ''p'' ''a.ts'' [ex_missing] ex_db
     = (Inr (), ex_db\<lparr>relations := [relation_values ''p'' ''a.ts'' ex_missing]\<rparr>)
   \<and> p_type ex_missing = None \<and> p_srcFilePath ex_missing = None \<and> p_dstFilePath ex_missing = None
   \<and> p_srcSymbolName ex_missing = None \<and> p_dstSymbolName ex_missing = None
   \<and> p_metaJson ex_missing = None
   \<and> relation_values ''p'' ''a.ts'' ex_missing
       = \<lparr> project = ''p'', rtype = ''unknown'', srcFilePath = ''a.ts'', srcSymbolName = None,
           dstFilePath = '''', dstSymbolName = None, metaJson = None \<rparr>"
proof -
  have m: "p_type ex_missing = None \<and> p_srcFilePath ex_missing = None
      \<and> p_dstFilePath ex_missing = None \<and> p_srcSymbolName ex_missing = None
      \<and> p_dstSymbolName ex_missing = None \<and> p_metaJson ex_missing = None"
    by (simp add: ex_missing_def)
  have "\<forall>rel. (p_type rel = None \<longrightarrow> rtype (relation_values ''p'' ''a.ts'' rel) = ''unknown'')
          \<and> (p_srcFilePath rel = None \<longrightarrow> srcFilePath (relation_values ''p'' ''a.ts'' rel) = ''a.ts'')
          \<and> (p_dstFilePath rel = None \<longrightarrow> dstFilePath (relation_values ''p'' ''a.ts'' rel) = '''')
          \<and> (p_srcSymbolName rel = None \<longrightarrow> srcSymbolName (relation_values ''p'' ''a.ts'' rel) = None)
          \<and> (p_dstSymbolName rel = None \<longrightarrow> dstSymbolName (relation_values ''p'' ''a.ts'' rel) = None)
          \<and> (p_metaJson rel = None \<longrightarrow> metaJson (relation_values ''p'' ''a.ts'' rel) = None)"
    using replaceFileRelations_defaults [OF ex_replace_missing] by blast
  then have f: "rtype (relation_values ''p'' ''a.ts'' ex_missing) = ''unknown''
      \<and> srcFilePath (relation_values ''p'' ''a.ts'' ex_missing) = ''a.ts''
      \<and> dstFilePath (relation_values ''p'' ''a.ts'' ex_missing) = ''''
      \<and> srcSymbolName (relation_values ''p'' ''a.ts'' ex_missing) = None
      \<and> dstSymbolName (relation_values ''p'' ''a.ts'' ex_missing) = None
      \<and> metaJson (relation_values ''p'' ''a.ts'' ex_missing) = None"
    using m by blast
  have p: "project (relation_values ''p'' ''a.ts'' ex_missing) = ''p''"
    by (simp add: relation_values_def)
  have "relation_values ''p'' ''a.ts'' ex_missing
       = \<lparr> project = ''p'', rtype = ''unknown'', srcFilePath = ''a.ts'', srcSymbolName = None,
           dstFilePath = '''', dstSymbolName = None, metaJson = None \<rparr>"
    using f p by (cases "relation_values ''p'' ''a.ts'' ex_missing") simp
  then show ?thesis using ex_replace_missing m by blast
qed

section \<open>Properties of the store connection\<close>

text \<open>
  C4, as stated, fails for a body that ends the transaction itself. At a nested level
  (depth 1, inside an open \<^verbatim>\<open>BEGIN\<close>) a body that issues \<^verbatim>\<open>ROLLBACK\<close> and then throws
  \<open>disk full\<close> leaves no savepoint behind: the \<^verbatim>\<open>ROLLBACK TO SAVEPOINT\<close> of the \<^verbatim>\<open>catch\<close>
  block throws, and \<^verbatim>\<open>transaction\<close> throws that error, not the body's; the contents are not
  those at entry either. At the outer level a body that issues \<^verbatim>\<open>COMMIT\<close> and returns 42
  makes the commit that follows throw, so the body's result is not returned.
\<close>

theorem transaction_unbalanced_body_counterexample:
  "fst (ex_rollback_throw
          (ex_nested\<lparr>txDepth := 2,
                     client := Some \<lparr>contents = [''a.ts''],
                                     frames = [(Some ''sp_1'', [''a.ts'']), (None, [])]\<rparr>\<rparr>))
     = Inl (Error ''disk full'')
   \<and> transaction ex_rollback_throw ex_nested
       = (Inl (Error ''no such savepoint: sp_1''),
          ex_nested\<lparr>client := Some \<lparr>contents = [], frames = []\<rparr>\<rparr>)
   \<and> fst (transaction ex_rollback_throw ex_nested) \<noteq> Inl (Error ''disk full'')
   \<and> fst (ex_commit_return
            (ex_conn\<lparr>txDepth := 1, client := Some \<lparr>contents = [], frames = [(None, [])]\<rparr>\<rparr>))
       = Inr 42
   \<and> transaction ex_commit_return ex_conn
       = (Inl (Error ''cannot commit - no transaction is active''), ex_conn)"
proof -
  have sp: "show_int 1 = ''1''"
    by (simp add: show_int_def show_nat.simps)
  have a: "fst (ex_rollback_throw
          (ex_nested\<lparr>txDepth := 2,
                     client := Some \<lparr>contents = [''a.ts''],
                                     frames = [(Some ''sp_1'', [''a.ts'']), (None, [])]\<rparr>\<rparr>))
     = Inl (Error ''disk full'')"
    by (simp add: ex_rollback_throw_def)
  have b: "transaction ex_rollback_throw ex_nested
       = (Inl (Error ''no such savepoint: sp_1''),
          ex_nested\<lparr>client := Some \<lparr>contents = [], frames = []\<rparr>\<rparr>)"
    by (simp add: transaction_def savepoint_catch_def run_def ex_rollback_throw_def
          ex_nested_def sp Let_def)
  have c: "fst (ex_commit_return
            (ex_conn\<lparr>txDepth := 1, client := Some \<lparr>contents = [], frames = [(None, [])]\<rparr>\<rparr>))
       = Inr 42"
    by (simp add: ex_commit_return_def)
  have d: "transaction ex_commit_return ex_conn
       = (Inl (Error ''cannot commit - no transaction is active''), ex_conn)"
    by (simp add: transaction_def bun_transaction_def bun_try_def run_def inTransaction_def
          ex_commit_return_def ex_conn_def Let_def)
  from a b c d show ?thesis by simp
qed

text \<open>
  C4, amended: let the connection be open, and let \<^verbatim>\<open>fn\<close>, started in the state \<open>c1\<close> in
  which \<^verbatim>\<open>transaction\<close> hands it control (depth incremented, one new frame holding the
  contents at entry: a \<^verbatim>\<open>BEGIN\<close> at the outer level, a savepoint at a nested level), hand
  control back with the connection still open and the frames as it found them: it has closed
  every transaction and savepoint it opened and has not ended an enclosing one. When \<^verbatim>\<open>fn\<close>
  returns \<open>v\<close>, \<^verbatim>\<open>transaction(fn)\<close> returns \<open>v\<close>, keeps the contents \<^verbatim>\<open>fn\<close> wrote and closes
  the frame it opened (a commit when no frame was open at entry, a release otherwise). When
  \<^verbatim>\<open>fn\<close> throws, the contents are those at entry, the frame is closed and the same value is
  thrown. On both paths the depth is decremented once: it is one less than \<^verbatim>\<open>fn\<close> left it,
  which is its value at entry when \<^verbatim>\<open>fn\<close> left it as it found it.
\<close>

theorem transaction_commit_or_rollback:
  assumes opened: "client c = Some e"
      and entry: "c1 = c\<lparr>txDepth := txDepth c + 1,
                        client := Some (e\<lparr>frames := (tag, contents e) # frames e\<rparr>)\<rparr>"
      and tag: "tag = (if txDepth c = 0 then (if frames e = [] then None else Some bun_savepoint)
                       else Some (''sp_'' @ show_int (txDepth c)))"
      and fn: "fn c1 = (r, c2)"
      and client2: "client c2 = Some e2"
      and frames2: "frames e2 = (tag, contents e) # frames e"
  shows "transaction fn c =
           (case r of
              Inr v \<Rightarrow> (Inr v, c2\<lparr>txDepth := txDepth c2 - 1,
                                  client := Some (e2\<lparr>frames := frames e\<rparr>)\<rparr>)
            | Inl err \<Rightarrow> (Inl err, c2\<lparr>txDepth := txDepth c2 - 1,
                                      client := Some (e2\<lparr>contents := contents e, frames := frames e\<rparr>)\<rparr>))
     \<and> (txDepth c2 = txDepth c1 \<longrightarrow> txDepth (snd (transaction fn c)) = txDepth c)"
proof -
  have main: "transaction fn c =
           (case r of
              Inr v \<Rightarrow> (Inr v, c2\<lparr>txDepth := txDepth c2 - 1,
                                  client := Some (e2\<lparr>frames := frames e\<rparr>)\<rparr>)
            | Inl err \<Rightarrow> (Inl err, c2\<lparr>txDepth := txDepth c2 - 1,
                                      client := Some (e2\<lparr>contents := contents e, frames := frames e\<rparr>)\<rparr>))"
  proof (cases "txDepth c = 0")
    case True
    show ?thesis
    proof (cases "frames e = []")
      case fe: True
      then have tg: "tag = None" using tag True by simp
      show ?thesis
        using opened True fe tg entry fn client2 frames2
        by (cases r)
           (simp_all add: transaction_def bun_transaction_def bun_try_def run_def
              inTransaction_def Let_def)
    next
      case fe: False
      then have tg: "tag = Some bun_savepoint" using tag True by simp
      show ?thesis
        using opened True fe tg entry fn client2 frames2
        by (cases r)
           (simp_all add: transaction_def bun_transaction_def bun_try_def run_def
              inTransaction_def Let_def)
    qed
  next
    case False
    then have tg: "tag = Some (''sp_'' @ show_int (txDepth c))" using tag by simp
    show ?thesis
      using opened False tg entry fn client2 frames2
      by (cases r)
         (simp_all add: transaction_def savepoint_catch_def run_def Let_def)
  qed
  have same_depth: "txDepth (snd (transaction fn c)) = txDepth c" if "txDepth c2 = txDepth c1"
    using that entry unfolding main by (cases r) simp_all
  from main same_depth show ?thesis by blast
qed

text \<open>
  The theorem at concrete inputs: at the outer level a body that writes a row and throws
  leaves the store as it was, and a body that writes a row and returns 42 commits the row;
  at a nested level (depth 1, inside an open \<^verbatim>\<open>BEGIN\<close>) the throwing body is undone and the
  outer transaction stays open.
\<close>

theorem transaction_commit_or_rollback_witness:
  "transaction ex_write_throw ex_conn = (Inl (Error ''rollback!''), ex_conn)
   \<and> transaction ex_write_return ex_conn
       = (Inr 42, ex_conn\<lparr>client := Some \<lparr>contents = [''src/index.ts''], frames = []\<rparr>\<rparr>)
   \<and> transaction ex_write_throw ex_nested = (Inl (Error ''rollback!''), ex_nested)"
proof -
  let ?e = "\<lparr>contents = [] :: string list, frames = []\<rparr>"
  let ?c1 = "ex_conn\<lparr>txDepth := txDepth ex_conn + 1,
                     client := Some (?e\<lparr>frames := (None, contents ?e) # frames ?e\<rparr>)\<rparr>"
  let ?e2 = "\<lparr>contents = [''src/index.ts''], frames = [(None, [] :: string list)]\<rparr>"
  have o: "client ex_conn = Some ?e" by (simp add: ex_conn_def)
  have t: "None = (if txDepth ex_conn = 0
                   then (if frames ?e = [] then None else Some bun_savepoint)
                   else Some (''sp_'' @ show_int (txDepth ex_conn)))"
    by (simp add: ex_conn_def)
  have f1: "ex_write_throw ?c1 = (Inl (Error ''rollback!''), ex_write ?c1)"
    by (simp add: ex_write_throw_def)
  have f2: "ex_write_return ?c1 = (Inr 42, ex_write ?c1)"
    by (simp add: ex_write_return_def)
  have k: "client (ex_write ?c1) = Some ?e2"
    by (simp add: ex_write_def ex_conn_def)
  have fr: "frames ?e2 = (None, contents ?e) # frames ?e" by simp
  have a: "transaction ex_write_throw ex_conn = (Inl (Error ''rollback!''), ex_conn)"
    using transaction_commit_or_rollback [where fn = ex_write_throw and c = ex_conn and tag = None,
            OF o refl t f1 k fr, THEN conjunct1]
    by (simp add: ex_write_def ex_conn_def)
  have b: "transaction ex_write_return ex_conn
       = (Inr 42, ex_conn\<lparr>client := Some \<lparr>contents = [''src/index.ts''], frames = []\<rparr>\<rparr>)"
    using transaction_commit_or_rollback [where fn = ex_write_return and c = ex_conn and tag = None,
            OF o refl t f2 k fr, THEN conjunct1]
    by (simp add: ex_write_def ex_conn_def)
  let ?ne = "\<lparr>contents = [''a.ts''], frames = [(None, [] :: string list)]\<rparr>"
  let ?n1 = "ex_nested\<lparr>txDepth := txDepth ex_nested + 1,
                 client := Some (?ne\<lparr>frames := (Some ''sp_1'', contents ?ne) # frames ?ne\<rparr>)\<rparr>"
  let ?ne2 = "\<lparr>contents = [''src/index.ts'', ''a.ts''],
               frames = [(Some ''sp_1'', [''a.ts'']), (None, [] :: string list)]\<rparr>"
  have no: "client ex_nested = Some ?ne" by (simp add: ex_nested_def)
  have nt: "Some ''sp_1'' = (if txDepth ex_nested = 0
                   then (if frames ?ne = [] then None else Some bun_savepoint)
                   else Some (''sp_'' @ show_int (txDepth ex_nested)))"
    by (simp add: ex_nested_def show_int_def show_nat.simps)
  have nf: "ex_write_throw ?n1 = (Inl (Error ''rollback!''), ex_write ?n1)"
    by (simp add: ex_write_throw_def)
  have nk: "client (ex_write ?n1) = Some ?ne2"
    by (simp add: ex_write_def ex_nested_def)
  have nfr: "frames ?ne2 = (Some ''sp_1'', contents ?ne) # frames ?ne" by simp
  have n: "transaction ex_write_throw ex_nested = (Inl (Error ''rollback!''), ex_nested)"
    using transaction_commit_or_rollback [where fn = ex_write_throw and c = ex_nested
            and tag = "Some ''sp_1''", OF no refl nt nf nk nfr, THEN conjunct1]
    by (simp add: ex_write_def ex_nested_def)
  from a b n show ?thesis by simp
qed

text \<open>
  What the recovery branch of \<^verbatim>\<open>open()\<close> does in one pass: when the pass throws a corruption
  error and the database file exists, the client is closed, the file and its \<open>-wal\<close> and
  \<open>-shm\<close> companions are removed, and \<^verbatim>\<open>open()\<close> is called again; what that call throws
  comes back wrapped as the cause of a \<^verbatim>\<open>StoreError\<close>. The call made is the whole of
  \<^verbatim>\<open>open()\<close>, recovery included.
\<close>

lemma open_db_recovery_step:
  assumes "env (attempts w) (disk w) = (outcome, disk1)"
      and "try_open outcome (conn w) = (Inl err, c1)"
      and "isCorruptionError err" and "dbPath c1 \<in> disk1"
  shows "open_db env w =
           Option.bind
             (open_db env
                (w\<lparr>conn := closeClient c1,
                   disk := disk1 - {dbPath c1} - {dbPath c1 @ ''-wal''} - {dbPath c1 @ ''-shm''},
                   attempts := attempts w + 1\<rparr>))
             (\<lambda>(r, w').
                case r of
                  Inr u \<Rightarrow> Some (Inr (), w')
                | Inl retryErr \<Rightarrow>
                    Some (Inl (StoreError (''Failed to recover database at '' @ dbPath c1)
                                 (Some retryErr)), w'))"
  by (subst open_db.simps) (simp add: assms)

lemma malformed_is_corruption:
  "isCorruptionError (Error ''database disk image is malformed'')"
  by (simp add: isCorruptionError_def toLowerCase_def toLowerChar_def startsWith_def)

text \<open>
  When every pass fails with a corruption message and leaves the database file behind, the
  recursion has no end: \<^verbatim>\<open>open()\<close> never returns (in the runtime, until the call stack is
  exhausted).
\<close>

lemma open_db_never_returns:
  assumes path: "dbPath (conn w) = ''/project/.zipbul/code-ledger.db''"
  shows "open_db ex_env_always w = None"
proof (rule ccontr)
  assume "open_db ex_env_always w \<noteq> None"
  then obtain y where y: "open_db ex_env_always w = Some y" by auto
  have "ex_env_always = ex_env_always
          \<longrightarrow> dbPath (conn w) = ''/project/.zipbul/code-ledger.db'' \<longrightarrow> False"
  proof (rule open_db.raw_induct
           [where P = "\<lambda>env w y. env = ex_env_always
                         \<longrightarrow> dbPath (conn w) = ''/project/.zipbul/code-ledger.db'' \<longrightarrow> False",
            OF _ y])
    fix rec :: "string list env \<Rightarrow> string list world \<Rightarrow> ((js_error + unit) \<times> string list world) option"
      and env w r
    assume IH: "\<And>e v y. rec e v = Some y \<Longrightarrow>
                  e = ex_env_always \<longrightarrow> dbPath (conn v) = ''/project/.zipbul/code-ledger.db'' \<longrightarrow> False"
    assume step: "(case env (attempts w) (disk w) of
      (outcome, disk1) \<Rightarrow>
        case try_open outcome (conn w) of
        (Inl err, c1) \<Rightarrow>
          if isCorruptionError err \<and> dbPath c1 \<in> disk1
          then Option.bind
                (rec env
                  (w\<lparr>conn := closeClient c1,
                       disk := disk1 - {dbPath c1} - {dbPath c1 @ ''-wal''} - {dbPath c1 @ ''-shm''},
                       attempts := attempts w + 1\<rparr>))
                (\<lambda>(r, w').
                    case r of
                    Inl retryErr \<Rightarrow>
                      Some (Inl (StoreError (''Failed to recover database at '' @ dbPath c1)
                                   (Some retryErr)), w')
                    | Inr u \<Rightarrow> Some (Inr (), w'))
          else if isStoreError err
               then Some (Inl err, w\<lparr>conn := c1, disk := disk1, attempts := attempts w + 1\<rparr>)
               else Some (Inl (StoreError (''Failed to open database at '' @ dbPath c1) (Some err)),
                          w\<lparr>conn := c1, disk := disk1, attempts := attempts w + 1\<rparr>)
        | (Inr u, c1) \<Rightarrow>
            Some (Inr (), w\<lparr>conn := c1, disk := disk1, attempts := attempts w + 1\<rparr>)) =
     Some r"
    show "env = ex_env_always \<longrightarrow> dbPath (conn w) = ''/project/.zipbul/code-ledger.db'' \<longrightarrow> False"
    proof (intro impI)
      assume e: "env = ex_env_always"
        and d: "dbPath (conn w) = ''/project/.zipbul/code-ledger.db''"
      from step e d obtain z where
        "rec ex_env_always
           (w\<lparr>conn := closeClient ((conn w)\<lparr>client := Some \<lparr> contents = [], frames = [] \<rparr>,
                                               drizzle := True\<rparr>),
              disk := (disk w \<union> {''/project/.zipbul/code-ledger.db''})
                        - {''/project/.zipbul/code-ledger.db''}
                        - {''/project/.zipbul/code-ledger.db'' @ ''-wal''}
                        - {''/project/.zipbul/code-ledger.db'' @ ''-shm''},
              attempts := attempts w + 1\<rparr>) = Some z"
        by (auto simp: ex_env_always_def malformed_is_corruption Option.bind_eq_Some_conv)
      from IH [OF this] d show False
        by (simp add: closeClient_def)
    qed
  qed
  with path show False by simp
qed

text \<open>
  C7, evaluated at the environment \<open>ex_env\<close>: the first two passes through \<^verbatim>\<open>open()\<close> fail
  with a corruption message while the database file exists, the third succeeds. The recovery
  branch runs twice, \<^verbatim>\<open>open()\<close> makes three passes and returns normally with the connection
  open: the retry is itself a call of \<^verbatim>\<open>open()\<close> and recovers again.
\<close>

theorem open_db_retries_more_than_once:
  "open_db ex_env ex_world
     = Some (Inr (), \<lparr> conn = \<lparr> client = Some \<lparr> contents = [], frames = [] \<rparr>, drizzle = True,
                               dbPath = ''/project/.zipbul/code-ledger.db'', txDepth = 0 \<rparr>,
                      disk = {''/project/.zipbul/code-ledger.db''}, attempts = 3 \<rparr>)"
proof -
  note cor = malformed_is_corruption
  show ?thesis
    apply (subst open_db.simps)
    apply (simp add: ex_env_def ex_world_def cor closeClient_def)
    apply (subst open_db.simps)
    apply (simp add: ex_env_def cor closeClient_def)
    apply (subst open_db.simps)
    apply (simp add: ex_env_def)
    apply auto
    done
qed

section \<open>Properties of symbol search\<close>

lemma reshape_detail:
  "reshape r = Inr x \<Longrightarrow> parse_detail (s_detailJson r) = Inr (r_detail x)"
  by (auto simp: reshape_def split: sum.splits)

lemma reshape_throws:
  "reshape r = Inl err \<longleftrightarrow> parse_detail (s_detailJson r) = Inl err"
  by (auto simp: reshape_def split: sum.splits)

lemma reshape_all_Inr:
  "reshape_all rows = Inr res \<Longrightarrow>
     length res = length rows \<and> (\<forall>i < length rows. reshape (rows ! i) = Inr (res ! i))"
proof (induction rows arbitrary: res)
  case Nil
  then show ?case by simp
next
  case (Cons r rows)
  from Cons.prems obtain x xs where x: "reshape r = Inr x" and xs: "reshape_all rows = Inr xs"
    and res: "res = x # xs"
    by (auto split: sum.splits)
  from Cons.IH [OF xs] x res show ?case
    by (auto simp: nth_Cons split: nat.splits)
qed

lemma reshape_all_Inl:
  "reshape_all rows = Inl err \<Longrightarrow> \<exists>r \<in> set rows. reshape r = Inl err"
  by (induction rows) (auto split: sum.splits)

lemma reshape_all_total:
  "list_all (\<lambda>r. \<exists>v. parse_detail (s_detailJson r) = Inr v) rows \<Longrightarrow> \<exists>res. reshape_all rows = Inr res"
proof (induction rows)
  case Nil
  then show ?case by simp
next
  case (Cons r rows)
  then obtain v res where "parse_detail (s_detailJson r) = Inr v" "reshape_all rows = Inr res"
    by auto
  then show ?case by (simp add: reshape_def)
qed

lemma ex_json_parses:
  "JSON_parse ex_json = Inr (JObject [(''returnType'', JArray [JString ''T'', JNumber ''1''])])"
  by code_simp

lemma ex_bad_json: "JSON_parse ''{not json'' = Inl (SyntaxError ''JSON Parse error'')"
  by code_simp

text \<open>
  C8, as stated, fails: \<^verbatim>\<open>JSON.parse\<close> is called without a \<^verbatim>\<open>try\<close>. When the repository returns
  a row whose \<^verbatim>\<open>detailJson\<close> is the text \<open>{not json\<close>, the search does not return a result with
  an empty detail: it throws the \<^verbatim>\<open>SyntaxError\<close>.
\<close>

theorem symbolSearch_invalid_detail_counterexample:
  "symbolSearch (ex_repo [ex_symbol ''src/a.ts'' ''myFn'' (Some ''fp001'') (Some ''{not json'')])
       (Some ''p'') ex_query
     = Inl (SyntaxError ''JSON Parse error'')"
  by (simp add: symbolSearch_def ex_repo_def reshape_def parse_detail_def ex_symbol_def ex_bad_json)

text \<open>
  C8, amended: a null (or empty) \<^verbatim>\<open>detailJson\<close> gives the empty object, and any other
  \<^verbatim>\<open>detailJson\<close> is handed to \<^verbatim>\<open>JSON.parse\<close>. When the detail of every returned row is null,
  empty or valid JSON the search succeeds, with one result per row carrying that row's detail;
  when some row's \<^verbatim>\<open>detailJson\<close> is not valid JSON the search throws the error \<^verbatim>\<open>JSON.parse\<close>
  raised for such a row.
\<close>

theorem symbolSearch_detail:
  assumes "searchByQuery (search_options proj query) = Inr rows"
  shows "parse_detail None = Inr (JObject []) \<and> parse_detail (Some []) = Inr (JObject [])
     \<and> (\<forall>s. s \<noteq> [] \<longrightarrow> parse_detail (Some s) = JSON_parse s)
     \<and> (list_all (\<lambda>r. \<exists>v. parse_detail (s_detailJson r) = Inr v) rows \<longrightarrow>
          (\<exists>res. symbolSearch searchByQuery proj query = Inr res \<and> length res = length rows
             \<and> (\<forall>i < length rows. parse_detail (s_detailJson (rows ! i)) = Inr (r_detail (res ! i)))))
     \<and> (\<not> list_all (\<lambda>r. \<exists>v. parse_detail (s_detailJson r) = Inr v) rows \<longrightarrow>
          (\<exists>err. symbolSearch searchByQuery proj query = Inl err
             \<and> (\<exists>r \<in> set rows. parse_detail (s_detailJson r) = Inl err)))"
proof -
  have eq: "symbolSearch searchByQuery proj query = reshape_all rows"
    using assms by (simp add: symbolSearch_def)
  have good: "\<exists>res. reshape_all rows = Inr res \<and> length res = length rows
             \<and> (\<forall>i < length rows. parse_detail (s_detailJson (rows ! i)) = Inr (r_detail (res ! i)))"
    if "list_all (\<lambda>r. \<exists>v. parse_detail (s_detailJson r) = Inr v) rows"
  proof -
    from reshape_all_total [OF that] obtain res where res: "reshape_all rows = Inr res" ..
    from reshape_all_Inr [OF res] show ?thesis
      using res by (auto dest: reshape_detail)
  qed
  have bad: "\<exists>err. reshape_all rows = Inl err \<and> (\<exists>r \<in> set rows. parse_detail (s_detailJson r) = Inl err)"
    if "\<not> list_all (\<lambda>r. \<exists>v. parse_detail (s_detailJson r) = Inr v) rows"
  proof (cases "reshape_all rows")
    case (Inl err)
    with reshape_all_Inl [OF Inl] show ?thesis by (auto simp: reshape_throws)
  next
    case (Inr res)
    from reshape_all_Inr [OF Inr] have "\<forall>i < length rows. \<exists>v. parse_detail (s_detailJson (rows ! i)) = Inr v"
      by (auto dest: reshape_detail)
    then have "list_all (\<lambda>r. \<exists>v. parse_detail (s_detailJson r) = Inr v) rows"
      by (auto simp: list_all_iff in_set_conv_nth)
    with that show ?thesis by simp
  qed
  show ?thesis
    using good bad by (simp add: eq parse_detail_def)
qed

theorem symbolSearch_detail_witness:
  "ex_repo [ex_symbol ''src/a.ts'' ''myFn'' (Some ''fp001'') None,
            ex_symbol ''src/a.ts'' ''other'' (Some ''fp002'') (Some ex_json)]
       (search_options (Some ''p'') ex_query)
     = Inr [ex_symbol ''src/a.ts'' ''myFn'' (Some ''fp001'') None,
            ex_symbol ''src/a.ts'' ''other'' (Some ''fp002'') (Some ex_json)]
   \<and> (\<exists>res. symbolSearch (ex_repo [ex_symbol ''src/a.ts'' ''myFn'' (Some ''fp001'') None,
                      ex_symbol ''src/a.ts'' ''other'' (Some ''fp002'') (Some ex_json)])
               (Some ''p'') ex_query = Inr res
          \<and> length res = 2
          \<and> r_detail (res ! 0) = JObject []
          \<and> r_detail (res ! 1) = JObject [(''returnType'', JArray [JString ''T'', JNumber ''1''])])"
proof -
  let ?rows = "[ex_symbol ''src/a.ts'' ''myFn'' (Some ''fp001'') None,
                ex_symbol ''src/a.ts'' ''other'' (Some ''fp002'') (Some ex_json)]"
  have h: "ex_repo ?rows (search_options (Some ''p'') ex_query) = Inr ?rows"
    by (simp add: ex_repo_def)
  have ne: "ex_json \<noteq> []" by (simp add: ex_json_def)
  have d0: "parse_detail (s_detailJson (?rows ! 0)) = Inr (JObject [])"
    by (simp add: parse_detail_def ex_symbol_def)
  have d1: "parse_detail (s_detailJson (?rows ! 1))
              = Inr (JObject [(''returnType'', JArray [JString ''T'', JNumber ''1''])])"
    using ne by (simp add: parse_detail_def ex_symbol_def ex_json_parses)
  have all: "list_all (\<lambda>r. \<exists>v. parse_detail (s_detailJson r) = Inr v) ?rows"
    using d0 d1 by simp
  from symbolSearch_detail [where searchByQuery = "ex_repo ?rows" and proj = "Some ''p''"
         and query = ex_query, OF h] all
  obtain res where res: "symbolSearch (ex_repo ?rows) (Some ''p'') ex_query = Inr res"
      and len: "length res = length ?rows"
      and det: "\<forall>i < length ?rows. parse_detail (s_detailJson (?rows ! i)) = Inr (r_detail (res ! i))"
    by blast
  have "parse_detail (s_detailJson (?rows ! 0)) = Inr (r_detail (res ! 0))"
    using det [rule_format, of 0] by simp
  moreover have "parse_detail (s_detailJson (?rows ! 1)) = Inr (r_detail (res ! 1))"
    using det [rule_format, of 1] by simp
  ultimately have "r_detail (res ! 0) = JObject []"
    and "r_detail (res ! 1) = JObject [(''returnType'', JArray [JString ''T'', JNumber ''1''])]"
    using d0 d1 by simp_all
  with res len h show ?thesis by auto
qed

section \<open>Properties of the coordinator's lock and intake\<close>

text \<open>
  C1: however the promise of \<^verbatim>\<open>_doIndex\<close> settles, the promise \<^verbatim>\<open>work\<close> settles the same way
  and the finalizer has run on the state the run left (after the subscribers, when it
  resolved). The finalizer first sets \<^verbatim>\<open>indexingLock\<close> to false and \<^verbatim>\<open>currentIndexing\<close> to null,
  then: when \<^verbatim>\<open>pendingFullIndex\<close> is set it clears the flag and starts a full run, whatever the
  buffer holds; otherwise, when the buffer is not empty, it empties it into a new incremental
  run; otherwise the lock stays free. A run it starts takes the lock again and becomes
  \<^verbatim>\<open>currentIndexing\<close>.
\<close>

theorem finalizer_releases_and_drains:
  "work_settles callbacks doIndex_outcome st
     = (doIndex_outcome,
        finalizer (case doIndex_outcome of
                     Resolved result \<Rightarrow> fireCallbacks callbacks result st
                   | Rejected err \<Rightarrow> st))
   \<and> finalizer s = drain_pending (release_lock s)
   \<and> indexingLock (release_lock s) = False \<and> currentIndexing (release_lock s) = None
   \<and> finalizer s =
       (if pendingFullIndex s then
          s\<lparr>indexingLock := True, currentIndexing := Some (length (runs s)),
            pendingFullIndex := False, runs := runs s @ [(None, True)]\<rparr>
        else if pendingEvents s \<noteq> [] then
          s\<lparr>indexingLock := True, currentIndexing := Some (length (runs s)),
            pendingEvents := [], runs := runs s @ [(Some (pendingEvents s), False)]\<rparr>
        else s\<lparr>indexingLock := False, currentIndexing := None\<rparr>)"
  by (cases doIndex_outcome)
     (simp_all add: work_settles_def finalizer_def release_lock_def drain_pending_def
        startIndex_def Let_def)

text \<open>
  The theorem at a run that rejects while a full index is pending and an event is buffered:
  the lock is released, a full run is started, and the event stays in the buffer.
\<close>

theorem finalizer_releases_and_drains_witness:
  "work_settles [] (Rejected (Error ''disk full'') :: IndexResult outcome) ex_busy
     = (Rejected (Error ''disk full''),
        ex_busy\<lparr>pendingFullIndex := False, currentIndexing := Some 1,
                  runs := [(None, False), (None, True)]\<rparr>)"
proof -
  note facts = finalizer_releases_and_drains
                 [of "[]" "Rejected (Error ''disk full'') :: IndexResult outcome" ex_busy ex_busy]
  have settled: "work_settles [] (Rejected (Error ''disk full'') :: IndexResult outcome) ex_busy
                   = (Rejected (Error ''disk full''), finalizer ex_busy)"
    using facts [THEN conjunct1] by simp
  have "finalizer ex_busy
          = ex_busy\<lparr>pendingFullIndex := False, currentIndexing := Some 1,
                      runs := [(None, False), (None, True)]\<rparr>"
    unfolding facts [THEN conjunct2, THEN conjunct2, THEN conjunct2, THEN conjunct2]
    by (simp add: ex_busy_def new_coordinator_def)
  with settled show ?thesis by (simp only:)
qed

text \<open>
  C6, as stated, fails for an event on \<open>tsconfig.json\<close>: on a coordinator at rest the call
  takes the lock and starts a full run before it returns, does not put the event into the
  buffer and arms no timer.
\<close>

theorem handleWatcherEvent_tsconfig_counterexample:
  "handleWatcherEvent 0 \<lparr>eventType = Change, filePath = ''tsconfig.json''\<rparr> new_coordinator
     = new_coordinator\<lparr>indexingLock := True, currentIndexing := Some 0, tsconfigLoads := 2,
                       runs := [(None, True)]\<rparr>
   \<and> runs (handleWatcherEvent 0 \<lparr>eventType = Change, filePath = ''tsconfig.json''\<rparr> new_coordinator)
       \<noteq> runs new_coordinator
   \<and> pendingEvents (handleWatcherEvent 0 \<lparr>eventType = Change, filePath = ''tsconfig.json''\<rparr>
                       new_coordinator) = []
   \<and> debounceTimer (handleWatcherEvent 0 \<lparr>eventType = Change, filePath = ''tsconfig.json''\<rparr>
                       new_coordinator) = None"
  by (simp add: handleWatcherEvent_def endsWith_def fullIndex_def startIndex_def
        new_coordinator_def Let_def)

text \<open>
  C6, amended: for an event whose path does not end with \<open>tsconfig.json\<close> (an event on
  \<open>package.json\<close> included) the call starts no run and leaves the lock alone: it appends the
  event to the buffer and arms a timer 100 ms ahead when none is armed, an armed timer keeping
  its time; for \<open>package.json\<close> it also starts a refresh of the project boundaries. For an
  event on \<open>tsconfig.json\<close> the call reloads the alias table and asks for a full run at once
  (started before the call returns when the lock is free, noted as pending otherwise), and
  neither buffers the event nor touches the timer.
\<close>

theorem handleWatcherEvent_intake:
  "(\<not> endsWith (filePath event) ''tsconfig.json'' \<longrightarrow>
      runs (handleWatcherEvent now event st) = runs st
    \<and> indexingLock (handleWatcherEvent now event st) = indexingLock st
    \<and> currentIndexing (handleWatcherEvent now event st) = currentIndexing st
    \<and> pendingFullIndex (handleWatcherEvent now event st) = pendingFullIndex st
    \<and> pendingEvents (handleWatcherEvent now event st) = pendingEvents st @ [event]
    \<and> debounceTimer (handleWatcherEvent now event st)
        = (case debounceTimer st of None \<Rightarrow> Some (now + 100) | Some t \<Rightarrow> Some t)
    \<and> boundariesRefresh (handleWatcherEvent now event st)
        = (if endsWith (filePath event) ''package.json'' then Some (discoverCalls st)
           else boundariesRefresh st))
   \<and> (endsWith (filePath event) ''tsconfig.json'' \<longrightarrow>
      pendingEvents (handleWatcherEvent now event st) = pendingEvents st
    \<and> debounceTimer (handleWatcherEvent now event st) = debounceTimer st
    \<and> tsconfigLoads (handleWatcherEvent now event st) = tsconfigLoads st + 1
    \<and> (if indexingLock st
        then runs (handleWatcherEvent now event st) = runs st
           \<and> pendingFullIndex (handleWatcherEvent now event st)
        else runs (handleWatcherEvent now event st) = runs st @ [(None, True)]
           \<and> indexingLock (handleWatcherEvent now event st)))"
  by (simp add: handleWatcherEvent_def fullIndex_def startIndex_def Let_def
        WATCHER_DEBOUNCE_MS_def split: option.splits)

theorem handleWatcherEvent_intake_witness:
  "\<not> endsWith ''package.json'' ''tsconfig.json''
   \<and> handleWatcherEvent 30 \<lparr>eventType = Change, filePath = ''package.json''\<rparr>
        (new_coordinator\<lparr>debounceTimer := Some 100,
                          pendingEvents := [\<lparr>eventType = Create, filePath = ''a.ts''\<rparr>]\<rparr>)
      = new_coordinator\<lparr>debounceTimer := Some 100,
           pendingEvents := [\<lparr>eventType = Create, filePath = ''a.ts''\<rparr>,
                             \<lparr>eventType = Change, filePath = ''package.json''\<rparr>],
           discoverCalls := 1, boundariesRefresh := Some 0\<rparr>
   \<and> endsWith ''src/tsconfig.json'' ''tsconfig.json''
   \<and> runs (handleWatcherEvent 30 \<lparr>eventType = Change, filePath = ''src/tsconfig.json''\<rparr>
             new_coordinator) = [(None, True)]"
proof -
  let ?st = "new_coordinator\<lparr>debounceTimer := Some 100,
                          pendingEvents := [\<lparr>eventType = Create, filePath = ''a.ts''\<rparr>]\<rparr>"
  let ?ev = "\<lparr>eventType = Change, filePath = ''package.json''\<rparr>"
  let ?tv = "\<lparr>eventType = Change, filePath = ''src/tsconfig.json''\<rparr>"
  have n: "\<not> endsWith (filePath ?ev) ''tsconfig.json''" by (simp add: endsWith_def)
  have p: "endsWith (filePath ?ev) ''package.json''" by (simp add: endsWith_def)
  have t: "endsWith (filePath ?tv) ''tsconfig.json''" by (simp add: endsWith_def)
  from handleWatcherEvent_intake [of ?ev 30 ?st] n p
  have f: "runs (handleWatcherEvent 30 ?ev ?st) = runs ?st"
    "indexingLock (handleWatcherEvent 30 ?ev ?st) = indexingLock ?st"
    "currentIndexing (handleWatcherEvent 30 ?ev ?st) = currentIndexing ?st"
    "pendingFullIndex (handleWatcherEvent 30 ?ev ?st) = pendingFullIndex ?st"
    "pendingEvents (handleWatcherEvent 30 ?ev ?st) = pendingEvents ?st @ [?ev]"
    "debounceTimer (handleWatcherEvent 30 ?ev ?st) = Some 100"
    "boundariesRefresh (handleWatcherEvent 30 ?ev ?st) = Some (discoverCalls ?st)"
    by simp_all
  have rest: "tsconfigLoads (handleWatcherEvent 30 ?ev ?st) = 1"
    "discoverCalls (handleWatcherEvent 30 ?ev ?st) = 1"
    using n p by (simp_all add: handleWatcherEvent_def Let_def new_coordinator_def)
  have a: "handleWatcherEvent 30 ?ev ?st
      = new_coordinator\<lparr>debounceTimer := Some 100,
           pendingEvents := [\<lparr>eventType = Create, filePath = ''a.ts''\<rparr>, ?ev],
           discoverCalls := 1, boundariesRefresh := Some 0\<rparr>"
    using f rest by (cases "handleWatcherEvent 30 ?ev ?st") (simp add: new_coordinator_def)
  from handleWatcherEvent_intake [of ?tv 30 new_coordinator] t
  have b: "runs (handleWatcherEvent 30 ?tv new_coordinator) = [(None, True)]"
    by (simp add: new_coordinator_def)
  from a b n t show ?thesis by simp
qed

section \<open>Properties of an indexing run\<close>

lemma fold_act_append:
  "fold_act body (xs @ ys) acc s = and_then (fold_act body xs acc) (\<lambda>a. fold_act body ys a) s"
  by (induction xs arbitrary: acc s) (auto simp: and_then_def split: prod.splits sum.splits)

lemma perform_calls_Nil: "perform_calls deps [] s = (Inr (), s)"
  by (simp add: perform_calls_def)

lemma perform_calls_append:
  "perform_calls deps (a @ b) s = and_then (perform_calls deps a) (\<lambda>u. perform_calls deps b) s"
  by (simp add: perform_calls_def fold_act_append)

lemma perform_calls_single:
  "perform_calls deps [(p, oldFile, oldSymbol, newFile, newSymbol)] s
     = relationRepo_retargetRelations deps p oldFile oldSymbol newFile newSymbol s"
  by (auto simp: perform_calls_def split: prod.splits sum.splits)

lemma retarget_symbol_calls:
  assumes "\<forall>p fp s. symbolRepo_getByFingerprint deps p fp s = (Inr (g p fp), s)"
      and "\<forall>path s. resolveFileProject deps path (boundaries deps s) = proj path"
  shows "retarget_symbol deps oldFile symb u s
           = perform_calls deps (expected_calls proj g [(oldFile, [symb])]) s"
proof (cases "s_fingerprint symb")
  case None
  then show ?thesis
    by (simp add: retarget_symbol_def expected_calls_def perform_calls_Nil)
next
  case (Some fp)
  show ?thesis
  proof (cases "fp = []")
    case True
    with Some show ?thesis
      by (simp add: retarget_symbol_def expected_calls_def perform_calls_Nil)
  next
    case False
    show ?thesis
    proof (cases "\<exists>m. g (proj oldFile) fp = [m]")
      case True
      then obtain m where m: "g (proj oldFile) fp = [m]" ..
      with Some False assms show ?thesis
        by (simp add: retarget_symbol_def expected_calls_def perform_calls_single
              and_then_def Let_def)
    next
      case no: False
      then have e: "(case g (proj oldFile) fp of
               [m] \<Rightarrow> [(proj oldFile, oldFile, Some (s_name symb), s_filePath m, Some (s_name m))]
             | _ \<Rightarrow> []) = []"
        by (auto split: list.splits)
      have r: "(case g (proj oldFile) fp of
               [newSym] \<Rightarrow> relationRepo_retargetRelations deps (proj oldFile) oldFile
                             (Some (s_name symb)) (s_filePath newSym) (Some (s_name newSym))
             | _ \<Rightarrow> ret ()) s = (Inr (), s)"
        using no by (auto simp: ret_def split: list.splits)
      from Some False assms e r show ?thesis
        by (simp add: retarget_symbol_def expected_calls_def perform_calls_Nil
              and_then_def Let_def)
    qed
  qed
qed

lemma expected_calls_Cons_sym:
  "expected_calls proj g [(oldFile, symb # syms)]
     = expected_calls proj g [(oldFile, [symb])] @ expected_calls proj g [(oldFile, syms)]"
  by (simp add: expected_calls_def)

lemma expected_calls_Cons:
  "expected_calls proj g ((oldFile, syms) # snapshot)
     = expected_calls proj g [(oldFile, syms)] @ expected_calls proj g snapshot"
  by (simp add: expected_calls_def)

lemma retarget_file_calls:
  assumes "\<forall>p fp s. symbolRepo_getByFingerprint deps p fp s = (Inr (g p fp), s)"
      and "\<forall>path s. resolveFileProject deps path (boundaries deps s) = proj path"
  shows "fold_act (retarget_symbol deps oldFile) syms () s
           = perform_calls deps (expected_calls proj g [(oldFile, syms)]) s"
proof (induction syms arbitrary: s)
  case Nil
  show ?case by (simp add: expected_calls_def perform_calls_Nil)
next
  case (Cons symb syms)
  have step: "retarget_symbol deps oldFile symb () s
                = perform_calls deps (expected_calls proj g [(oldFile, [symb])]) s"
    by (rule retarget_symbol_calls [OF assms])
  show ?case
    unfolding expected_calls_Cons_sym [of proj g oldFile symb syms] perform_calls_append
    by (simp add: step [symmetric] and_then_def Cons.IH split: prod.splits sum.splits)
qed

lemma retarget_Cons:
  "retarget deps ((oldFile, syms) # snapshot) s
     = and_then (fold_act (retarget_symbol deps oldFile) syms ()) (\<lambda>u. retarget deps snapshot) s"
  by (simp add: retarget_def and_then_def split: prod.splits sum.splits)

lemma retarget_perform:
  assumes "\<forall>p fp s. symbolRepo_getByFingerprint deps p fp s = (Inr (g p fp), s)"
      and "\<forall>path s. resolveFileProject deps path (boundaries deps s) = proj path"
  shows "retarget deps snapshot s = perform_calls deps (expected_calls proj g snapshot) s"
proof (induction snapshot arbitrary: s)
  case Nil
  show ?case by (simp add: retarget_def expected_calls_def perform_calls_Nil)
next
  case (Cons entry snapshot)
  obtain oldFile syms where entry: "entry = (oldFile, syms)" by (cases entry)
  have one: "\<And>s. fold_act (retarget_symbol deps oldFile) syms () s
                = perform_calls deps (expected_calls proj g [(oldFile, syms)]) s"
    by (rule retarget_file_calls [OF assms])
  show ?case
    unfolding entry retarget_Cons expected_calls_Cons [of proj g oldFile syms snapshot]
      perform_calls_append
    by (simp add: and_then_def one Cons.IH split: prod.splits sum.splits)
qed

lemma expected_calls_iff:
  "call \<in> set (expected_calls proj g snapshot) \<longleftrightarrow>
     (\<exists>oldPath syms symb fp m.
        (oldPath, syms) \<in> set snapshot \<and> symb \<in> set syms \<and> s_fingerprint symb = Some fp
        \<and> fp \<noteq> [] \<and> g (proj oldPath) fp = [m]
        \<and> call = (proj oldPath, oldPath, Some (s_name symb), s_filePath m, Some (s_name m)))"
  (is "?L \<longleftrightarrow> ?R")
proof -
  define one where "one = (\<lambda>oldPath (symb :: SymbolRecord).
      case s_fingerprint symb of
        None \<Rightarrow> []
      | Some fp \<Rightarrow>
          if fp = [] then []
          else (case g (proj oldPath) fp of
                  [m] \<Rightarrow> [(proj oldPath, oldPath, Some (s_name symb), s_filePath m, Some (s_name m))]
                | _ \<Rightarrow> []))"
  have one_iff: "call \<in> set (one oldPath symb) \<longleftrightarrow>
      (\<exists>fp m. s_fingerprint symb = Some fp \<and> fp \<noteq> [] \<and> g (proj oldPath) fp = [m]
         \<and> call = (proj oldPath, oldPath, Some (s_name symb), s_filePath m, Some (s_name m)))"
    for oldPath symb
  proof (cases "s_fingerprint symb")
    case None
    then show ?thesis by (simp add: one_def)
  next
    case (Some fp)
    show ?thesis
    proof (cases "g (proj oldPath) fp")
      case Nil
      with Some show ?thesis by (simp add: one_def)
    next
      case (Cons m ms)
      with Some show ?thesis by (cases ms) (auto simp: one_def)
    qed
  qed
  have "expected_calls proj g snapshot
          = concat (map (\<lambda>(oldPath, syms). concat (map (one oldPath) syms)) snapshot)"
    by (simp add: expected_calls_def one_def)
  then have "?L \<longleftrightarrow> (\<exists>oldPath syms symb. (oldPath, syms) \<in> set snapshot \<and> symb \<in> set syms
                        \<and> call \<in> set (one oldPath symb))"
    by fastforce
  also have "\<dots> \<longleftrightarrow> ?R"
    unfolding one_iff by blast
  finally show ?thesis .
qed
text \<open>
  C2, as stated, fails: the guard is \<^verbatim>\<open>!sym.fingerprint\<close>, which also passes over the empty
  string. A snapshot symbol whose fingerprint is the empty string (not null) and for which the
  lookup returns exactly one match leads to no call of \<^verbatim>\<open>retargetRelations\<close>.
\<close>

theorem retarget_empty_fingerprint_counterexample:
  "s_fingerprint (ex_symbol ''src/old.ts'' ''movedFn'' (Some []) None) \<noteq> None
   \<and> length (one_match ''p'' []) = 1
   \<and> retarget (mock_deps no_symbols one_match [])
        [(''src/old.ts'', [ex_symbol ''src/old.ts'' ''movedFn'' (Some []) None])] mock_start
      = (Inr (), mock_start)
   \<and> retargets mock_start = []"
  by (simp add: retarget_def retarget_symbol_def ex_symbol_def one_match_def mock_start_def)

text \<open>
  C2, amended: let the fingerprint lookup return \<open>g project fingerprint\<close> without throwing
  or changing anything, and let \<open>proj\<close> give the project of a path. Then the retargeting step
  does exactly what performing the calls \<open>expected_calls\<close> does, in order, and nothing else;
  and \<^verbatim>\<open>retargetRelations(project, oldPath, symbol.name, match.filePath, match.name)\<close> is among
  these calls if and only if \<open>symbol\<close> is recorded for \<open>oldPath\<close> in the snapshot, its
  fingerprint is neither null nor empty, and the lookup of that fingerprint returns exactly
  the one symbol \<open>match\<close>. A null or empty fingerprint, no match and several matches add no
  call and raise nothing.
\<close>

theorem retarget_calls_exactly:
  assumes "\<forall>p fp s. symbolRepo_getByFingerprint deps p fp s = (Inr (g p fp), s)"
      and "\<forall>path s. resolveFileProject deps path (boundaries deps s) = proj path"
  shows "retarget deps snapshot s = perform_calls deps (expected_calls proj g snapshot) s
     \<and> (\<forall>call. call \<in> set (expected_calls proj g snapshot) \<longleftrightarrow>
          (\<exists>oldPath syms symb fp m.
             (oldPath, syms) \<in> set snapshot \<and> symb \<in> set syms \<and> s_fingerprint symb = Some fp
             \<and> fp \<noteq> [] \<and> g (proj oldPath) fp = [m]
             \<and> call = (proj oldPath, oldPath, Some (s_name symb), s_filePath m, Some (s_name m))))"
  using retarget_perform [OF assms] expected_calls_iff by blast

text \<open>
  The theorem at the move of the specification's first scenario, with a second symbol that has
  no fingerprint: one call, for the symbol with the fingerprint. With recording collaborators
  the call is logged; with the relation repository's own \<^verbatim>\<open>retargetRelations\<close> the import that
  pointed at \<open>src/old.ts\<close> now comes in at \<open>src/new.ts\<close>.
\<close>

theorem retarget_calls_exactly_witness:
  "retarget (mock_deps no_symbols one_match [])
     [(''src/old.ts'', [ex_symbol ''src/old.ts'' ''movedFn'' (Some ''fp-move'') None,
                        ex_symbol ''src/old.ts'' ''helper'' None None])] mock_start
     = (Inr (), mock_start\<lparr>retargets :=
          [(''p'', ''src/old.ts'', Some ''movedFn'', ''src/new.ts'', Some ''movedFn'')]\<rparr>)
   \<and> retarget (db_deps one_match)
       [(''src/old.ts'', [ex_symbol ''src/old.ts'' ''movedFn'' (Some ''fp-move'') None,
                          ex_symbol ''src/old.ts'' ''helper'' None None])] ex_moved_db
     = (Inr (), ex_moved_db\<lparr>relations :=
          [(ex_rel ''src/other.ts'' ''src/new.ts'')\<lparr>dstSymbolName := Some ''movedFn''\<rparr>]\<rparr>)
   \<and> getIncoming ''p'' ''src/new.ts''
         (ex_moved_db\<lparr>relations :=
            [(ex_rel ''src/other.ts'' ''src/new.ts'')\<lparr>dstSymbolName := Some ''movedFn''\<rparr>]\<rparr>)
     = [(ex_rel ''src/other.ts'' ''src/new.ts'')\<lparr>dstSymbolName := Some ''movedFn''\<rparr>]"
proof -
  let ?deps = "mock_deps no_symbols one_match []"
  let ?snap = "[(''src/old.ts'', [ex_symbol ''src/old.ts'' ''movedFn'' (Some ''fp-move'') None,
                                  ex_symbol ''src/old.ts'' ''helper'' None None])]"
  have h1: "\<forall>p fp s. symbolRepo_getByFingerprint ?deps p fp s = (Inr (one_match p fp), s)"
    by (simp add: mock_deps_def ret_def)
  have h2: "\<forall>path s. resolveFileProject ?deps path (boundaries ?deps s) = (\<lambda>path. ''p'') path"
    by (simp add: mock_deps_def)
  have e: "expected_calls (\<lambda>path. ''p'') one_match ?snap
             = [(''p'', ''src/old.ts'', Some ''movedFn'', ''src/new.ts'', Some ''movedFn'')]"
    by (simp add: expected_calls_def ex_symbol_def one_match_def)
  have "retarget ?deps ?snap mock_start
          = perform_calls ?deps (expected_calls (\<lambda>path. ''p'') one_match ?snap) mock_start"
    using retarget_calls_exactly [OF h1 h2] by blast
  also have "\<dots> = (Inr (), mock_start\<lparr>retargets :=
          [(''p'', ''src/old.ts'', Some ''movedFn'', ''src/new.ts'', Some ''movedFn'')]\<rparr>)"
    unfolding e by (simp add: perform_calls_def mock_deps_def mock_start_def)
  finally have recorded: "retarget ?deps ?snap mock_start
      = (Inr (), mock_start\<lparr>retargets :=
          [(''p'', ''src/old.ts'', Some ''movedFn'', ''src/new.ts'', Some ''movedFn'')]\<rparr>)" .
  let ?real = "db_deps one_match"
  have r1: "\<forall>p fp s. symbolRepo_getByFingerprint ?real p fp s = (Inr (one_match p fp), s)"
    by (simp add: db_deps_def ret_def)
  have r2: "\<forall>path s. resolveFileProject ?real path (boundaries ?real s) = (\<lambda>path. ''p'') path"
    by (simp add: db_deps_def)
  have "retarget ?real ?snap ex_moved_db
          = perform_calls ?real (expected_calls (\<lambda>path. ''p'') one_match ?snap) ex_moved_db"
    using retarget_calls_exactly [OF r1 r2] by blast
  also have "\<dots> = (Inr (), ex_moved_db\<lparr>relations :=
          [(ex_rel ''src/other.ts'' ''src/new.ts'')\<lparr>dstSymbolName := Some ''movedFn''\<rparr>]\<rparr>)"
    unfolding e
    by (simp add: perform_calls_def db_deps_def ex_moved_db_def retargetRelations_def
          retarget_condition_def ex_rel_def)
  finally have stored: "retarget ?real ?snap ex_moved_db
      = (Inr (), ex_moved_db\<lparr>relations :=
          [(ex_rel ''src/other.ts'' ''src/new.ts'')\<lparr>dstSymbolName := Some ''movedFn''\<rparr>]\<rparr>)" .
  have incoming: "getIncoming ''p'' ''src/new.ts''
         (ex_moved_db\<lparr>relations :=
            [(ex_rel ''src/other.ts'' ''src/new.ts'')\<lparr>dstSymbolName := Some ''movedFn''\<rparr>]\<rparr>)
     = [(ex_rel ''src/other.ts'' ''src/new.ts'')\<lparr>dstSymbolName := Some ''movedFn''\<rparr>]"
    by (simp add: getIncoming_def ex_rel_def)
  from recorded stored incoming show ?thesis by simp
qed

lemma processChanged_append:
  "processChanged deps tsconfigPaths (xs @ ys) acc s
     = (case processChanged deps tsconfigPaths xs acc s of
          (c, s') \<Rightarrow> processChanged deps tsconfigPaths ys c s')"
  by (induction xs arbitrary: acc s) (auto split: prod.splits sum.splits)

lemma processChanged_keeps_failed:
  "processChanged deps tsconfigPaths fs acc s = (c, s')
     \<Longrightarrow> set (cnt_failedFiles acc) \<subseteq> set (cnt_failedFiles c)"
proof (induction fs arbitrary: acc s)
  case Nil
  then show ?case by simp
next
  case (Cons f fs)
  show ?case
  proof (cases "processFile deps (c_filePath f)
                  (if c_contentHash f = [] then None else Some (c_contentHash f)) tsconfigPaths s")
    case (Pair r s1)
    show ?thesis
    proof (cases r)
      case (Inl err)
      with Pair Cons.prems
      have "processChanged deps tsconfigPaths fs
              (acc\<lparr>cnt_failedFiles := cnt_failedFiles acc @ [c_filePath f]\<rparr>) s1 = (c, s')"
        by simp
      from Cons.IH [OF this] show ?thesis by simp
    next
      case (Inr cnt)
      obtain symbolCount relCount where cnt: "cnt = (symbolCount, relCount)" by (cases cnt)
      with Inr Pair Cons.prems
      have "processChanged deps tsconfigPaths fs
              (acc\<lparr>cnt_symbols := cnt_symbols acc + symbolCount,
                   cnt_relations := cnt_relations acc + relCount\<rparr>) s1 = (c, s')"
        by simp
      from Cons.IH [OF this] show ?thesis by simp
    qed
  qed
qed

text \<open>
  C3: take an incremental run (\<^verbatim>\<open>useTransaction = false\<close>) in which the steps outside the
  processing of files do not throw, and whose changed files are \<open>xs\<close>, then \<open>fl\<close>, then
  \<open>ys\<close>. Let the processing of \<open>fl\<close>, in the state the files \<open>xs\<close> left, throw. Then the loop
  goes on with \<open>ys\<close> from the state the failed processing left, the promise of \<^verbatim>\<open>_doIndex\<close>
  resolves, and the result lists the path of \<open>fl\<close> in \<^verbatim>\<open>failedFiles\<close>, next to every changed
  file in \<^verbatim>\<open>changedFiles\<close>.
\<close>

theorem incremental_run_contains_file_failure:
  assumes refresh: "awaitBoundariesRefresh deps s0 = (Inr (), s1)"
      and changes: "determine_changes deps events s1 = (Inr (xs @ fl # ys, deleted), s2)"
      and paths: "awaitTsconfigPaths deps s2 = (Inr tsconfigPaths, s3)"
      and snapshot: "snapshot_deleted deps deleted s3 = (Inr deletedSymbols, s4)"
      and deletion: "processDeleted deps deleted s4 = (Inr (), s5)"
      and before: "processChanged deps tsconfigPaths xs no_counts s5 = (c1, s6)"
      and throws: "processFile deps (c_filePath fl)
                     (if c_contentHash fl = [] then None else Some (c_contentHash fl))
                     tsconfigPaths s6 = (Inl err, s7)"
      and after: "processChanged deps tsconfigPaths ys
                    (c1\<lparr>cnt_failedFiles := cnt_failedFiles c1 @ [c_filePath fl]\<rparr>) s7 = (c2, s8)"
      and moves: "retarget deps deletedSymbols s8 = (Inr (), s9)"
  shows "doIndex deps events False s0
           = (Inr \<lparr> indexedFiles = length (xs @ fl # ys), removedFiles = length deleted,
                    totalSymbols = cnt_symbols c2, totalRelations = cnt_relations c2,
                    durationMs = clock deps s9 - clock deps s0,
                    changedFiles = map c_filePath (xs @ fl # ys), deletedFiles = deleted,
                    failedFiles = cnt_failedFiles c2 \<rparr>, s9)
     \<and> c_filePath fl \<in> set (cnt_failedFiles c2)"
proof -
  have loop: "processChanged deps tsconfigPaths (xs @ fl # ys) no_counts s5 = (c2, s8)"
    using before throws after by (simp add: processChanged_append)
  have listed: "c_filePath fl \<in> set (cnt_failedFiles c2)"
    using processChanged_keeps_failed [OF after] by auto
  have run: "doIndex deps events False s0
           = (Inr \<lparr> indexedFiles = length (xs @ fl # ys), removedFiles = length deleted,
                    totalSymbols = cnt_symbols c2, totalRelations = cnt_relations c2,
                    durationMs = clock deps s9 - clock deps s0,
                    changedFiles = map c_filePath (xs @ fl # ys), deletedFiles = deleted,
                    failedFiles = cnt_failedFiles c2 \<rparr>, s9)"
    unfolding doIndex_def Let_def and_then_def
    by (simp add: refresh changes paths snapshot deletion loop moves)
  from run listed show ?thesis by simp
qed
text \<open>
  The theorem at the specification's fifth scenario: three changed files, the second of which
  cannot be read. The first and the third are indexed, the second is listed as failed, and
  the run resolves.
\<close>

theorem incremental_run_contains_file_failure_witness:
  "doIndex (mock_deps no_symbols no_symbols [''/project/src/b.ts'']) (Some ex_events) False mock_start
     = (Inr \<lparr> indexedFiles = 3, removedFiles = 0, totalSymbols = 0, totalRelations = 0,
              durationMs = 0, changedFiles = [''src/a.ts'', ''src/b.ts'', ''src/c.ts''],
              deletedFiles = [], failedFiles = [''src/b.ts''] \<rparr>,
        mock_start\<lparr>oplog := [''upsert src/a.ts'', ''symbols src/a.ts'',
                              ''upsert src/c.ts'', ''symbols src/c.ts'']\<rparr>)"
proof -
  let ?deps = "mock_deps no_symbols no_symbols [''/project/src/b.ts'']"
  let ?w1 = "mock_start\<lparr>oplog := [''upsert src/a.ts'', ''symbols src/a.ts'']\<rparr>"
  let ?w2 = "mock_start\<lparr>oplog := [''upsert src/a.ts'', ''symbols src/a.ts'',
                                   ''upsert src/c.ts'', ''symbols src/c.ts'']\<rparr>"
  let ?c2 = "no_counts\<lparr>cnt_failedFiles := cnt_failedFiles no_counts @ [c_filePath (ex_changed ''src/b.ts'')]\<rparr>"
  have refresh: "awaitBoundariesRefresh ?deps mock_start = (Inr (), mock_start)"
    by (simp add: mock_deps_def ret_def)
  have changes: "determine_changes ?deps (Some ex_events) mock_start
      = (Inr ([ex_changed ''src/a.ts''] @ ex_changed ''src/b.ts'' # [ex_changed ''src/c.ts''], []),
         mock_start)"
    by (simp add: determine_changes_def classify_events_def ex_events_def ex_changed_def ret_def)
  have paths: "awaitTsconfigPaths ?deps mock_start = (Inr (), mock_start)"
    by (simp add: mock_deps_def ret_def)
  have snapshot: "snapshot_deleted ?deps [] mock_start = (Inr [], mock_start)"
    by (simp add: snapshot_deleted_def)
  have deletion: "processDeleted ?deps [] mock_start = (Inr (), mock_start)"
    by (simp add: processDeleted_def)
  have file_a: "processFile ?deps ''src/a.ts'' None () mock_start = (Inr (0, 0), ?w1)"
    by (simp add: processFile_def store_parsed_def and_then_def ret_def mock_deps_def
          mock_log_def mock_start_def no_symbols_def Let_def)
  have file_b: "processFile ?deps ''src/b.ts'' None () ?w1 = (Inl (Error ''ENOENT''), ?w1)"
    by (simp add: processFile_def and_then_def mock_deps_def Let_def)
  have file_c: "processFile ?deps ''src/c.ts'' None () ?w1 = (Inr (0, 0), ?w2)"
    by (simp add: processFile_def store_parsed_def and_then_def ret_def mock_deps_def
          mock_log_def mock_start_def no_symbols_def Let_def)
  have before: "processChanged ?deps () [ex_changed ''src/a.ts''] no_counts mock_start
                  = (no_counts, ?w1)"
    by (simp add: ex_changed_def file_a no_counts_def)
  have throws: "processFile ?deps (c_filePath (ex_changed ''src/b.ts''))
                  (if c_contentHash (ex_changed ''src/b.ts'') = [] then None
                   else Some (c_contentHash (ex_changed ''src/b.ts''))) () ?w1
                  = (Inl (Error ''ENOENT''), ?w1)"
    by (simp add: ex_changed_def file_b)
  have after: "processChanged ?deps () [ex_changed ''src/c.ts''] ?c2 ?w1 = (?c2, ?w2)"
    by (simp add: ex_changed_def file_c no_counts_def)
  have moves: "retarget ?deps [] ?w2 = (Inr (), ?w2)"
    by (simp add: retarget_def)
  have clock0: "clock ?deps ?w2 - clock ?deps mock_start = 0"
    by (simp add: mock_deps_def)
  from incremental_run_contains_file_failure
         [OF refresh changes paths snapshot deletion before throws after moves]
  show ?thesis
    by (simp add: clock0 ex_changed_def no_counts_def)
qed

end
